theory Spec2Isabelle
  imports Complex_Main "HOL-Library.Word"
begin

section \<open>The CANN operator dispatch layer (ggml-cann/aclnn\_ops.h)\<close>

text \<open>
  The header \<^verbatim>\<open>aclnn_ops.h\<close> defines the two-phase invocation macro
  \<^verbatim>\<open>GGML_CANN_CALL_ACLNN_OP\<close> and the two dispatch templates
  \<^verbatim>\<open>ggml_cann_unary_op\<close> and \<^verbatim>\<open>ggml_cann_binary_op\<close>; everything else
  it only declares. The embedding threads an explicit world through every call: the
  host-side trace of calls into the accelerator runtime and the memory pool, and the
  device memory the kernels write. A failed \<^verbatim>\<open>ACL_CHECK\<close> ends the run: it is the
  outcome \<open>Abort\<close>, which keeps the world reached so far.
\<close>

subsection \<open>Data model\<close>

type_synonym addr = nat

text \<open>
  \<^verbatim>\<open>aclTensor\<close>: the device tensor handle. It records the view's extents, its
  strides in elements, the element size and the address of the first element.
\<close>

record acl_tensor =
  acl_dims :: "nat list"
  acl_strides :: "nat list"
  acl_elem_size :: nat
  acl_data :: addr

text \<open>
  \<^verbatim>\<open>ggml_tensor\<close>: the graph engine's tensor descriptor, with the fields this layer
  reads: the element size of its type, the extents \<^verbatim>\<open>ne\<close>, the byte strides
  \<^verbatim>\<open>nb\<close>, the operator parameters, the data pointer and the source tensors.
\<close>

datatype ggml_tensor =
  Tensor (type_size: nat) (ne: "nat list") (nb: "nat list") (op_params: "real list")
         (data: addr) (src: "ggml_tensor list")

text \<open>The calls that leave the host, in the order they are made.\<close>

datatype event =
    CreateTensor acl_tensor
  | DestroyTensor acl_tensor
  | GetWorkspaceSize string
  | PoolAlloc "64 word" addr
  | PoolFree addr
  | Launch string "addr option" "64 word"

record world =
  trace :: "event list"
  mem :: "addr \<Rightarrow> real"

text \<open>
  What the accelerator runtime and the pool answer: the status and the size reported by
  \<^verbatim>\<open>aclnn<OP>GetWorkspaceSize\<close>, the status of \<^verbatim>\<open>aclnn<OP>\<close>, the status of
  \<^verbatim>\<open>aclDestroyTensor\<close>, and the pointer the pool hands out for a size.
\<close>

record runtime =
  ws_status :: "string \<Rightarrow> int"
  ws_size :: "string \<Rightarrow> 64 word"
  exec_status :: "string \<Rightarrow> int"
  destroy_status :: "acl_tensor \<Rightarrow> int"
  pool_ptr :: "64 word \<Rightarrow> addr"

datatype failure =
    AclError string int
  | BroadcastIncompatible nat
  | NullTensor

datatype 'r outcome = Done 'r world | Abort failure world

definition and_then :: "'r outcome \<Rightarrow> ('r \<Rightarrow> world \<Rightarrow> 's outcome) \<Rightarrow> 's outcome" where
  "and_then m k = (case m of Done r w \<Rightarrow> k r w | Abort e w \<Rightarrow> Abort e w)"

definition emit :: "event \<Rightarrow> world \<Rightarrow> world" where
  "emit e w = w\<lparr>trace := trace w @ [e]\<rparr>"

definition world_of :: "'r outcome \<Rightarrow> world" where
  "world_of m = (case m of Done r w \<Rightarrow> w | Abort e w \<Rightarrow> w)"

definition failure_of :: "'r outcome \<Rightarrow> failure option" where
  "failure_of m = (case m of Done r w \<Rightarrow> None | Abort e w \<Rightarrow> Some e)"

subsection \<open>The runtime's entry points and the status check\<close>

definition ACL_SUCCESS :: int where
  "ACL_SUCCESS = 0"

text \<open>
  Modelled from the spec: the macro \<^verbatim>\<open>ACL_CHECK\<close> of \<^verbatim>\<open>common.h\<close>, which is not
  in the header. A status other than the success value is a hard failure of the current
  invocation, reported with the checked statement and the status code; nothing is retried.
\<close>

definition ACL_CHECK :: "string \<Rightarrow> int \<Rightarrow> world \<Rightarrow> unit outcome" where
  "ACL_CHECK stmt err_code w =
     (if err_code \<noteq> ACL_SUCCESS then Abort (AclError stmt err_code) w else Done () w)"

text \<open>
  \<^verbatim>\<open>aclnn<OP>GetWorkspaceSize(args, &workspaceSize, &executor)\<close>: the query phase.
\<close>

definition aclnnGetWorkspaceSize :: "runtime \<Rightarrow> string \<Rightarrow> world \<Rightarrow> (int \<times> 64 word) \<times> world" where
  "aclnnGetWorkspaceSize ctx OP_NAME w =
     ((ws_status ctx OP_NAME, ws_size ctx OP_NAME), emit (GetWorkspaceSize OP_NAME) w)"

text \<open>
  \<^verbatim>\<open>aclnn<OP>(workspaceAddr, workspaceSize, executor, stream)\<close>: the execute phase. The
  submission is recorded; a successful submission has the kernel's effect on the device
  memory (the stream runs its work in order, so the effect is that of running it here).
\<close>

definition aclnnExecute ::
  "runtime \<Rightarrow> string \<Rightarrow> ((addr \<Rightarrow> real) \<Rightarrow> (addr \<Rightarrow> real)) \<Rightarrow> addr option \<Rightarrow> 64 word \<Rightarrow> world
     \<Rightarrow> int \<times> world" where
  "aclnnExecute ctx OP_NAME kern workspaceAddr workspaceSize w =
     (exec_status ctx OP_NAME,
      (emit (Launch OP_NAME workspaceAddr workspaceSize) w)
        \<lparr>mem := (if exec_status ctx OP_NAME = ACL_SUCCESS then kern (mem w) else mem w)\<rparr>)"

text \<open>
  Modelled from the spec: the class \<^verbatim>\<open>ggml_cann_pool_alloc\<close> of \<^verbatim>\<open>common.h\<close>, the
  scoped owner of one pool allocation. Its constructor acquires the requested number of
  bytes from the pool, \<^verbatim>\<open>get()\<close> is the pointer, and leaving the scope of the object
  releases the allocation back to the pool.
\<close>

definition pool_alloc_ctor :: "runtime \<Rightarrow> 64 word \<Rightarrow> world \<Rightarrow> addr \<times> world" where
  "pool_alloc_ctor ctx n_bytes w =
     (pool_ptr ctx n_bytes, emit (PoolAlloc n_bytes (pool_ptr ctx n_bytes)) w)"

definition pool_alloc_dtor :: "addr \<Rightarrow> world \<Rightarrow> world" where
  "pool_alloc_dtor p w = emit (PoolFree p) w"

subsection \<open>The two-phase invocation protocol\<close>

text \<open>
  \<^verbatim>\<open>GGML_CANN_CALL_ACLNN_OP(OP_NAME, ...)\<close>. The block of the \<^verbatim>\<open>if\<close> declares
  the allocator object, so the object's scope ends at the closing brace of that block,
  before the execute phase is called with the pointer.
\<close>

definition GGML_CANN_CALL_ACLNN_OP ::
  "runtime \<Rightarrow> string \<Rightarrow> ((addr \<Rightarrow> real) \<Rightarrow> (addr \<Rightarrow> real)) \<Rightarrow> world \<Rightarrow> unit outcome" where
  "GGML_CANN_CALL_ACLNN_OP ctx OP_NAME kern w =
     (case aclnnGetWorkspaceSize ctx OP_NAME w of
        ((st, workspaceSize), w1) \<Rightarrow>
          and_then (ACL_CHECK (''aclnn'' @ OP_NAME @ ''GetWorkspaceSize'') st w1) (\<lambda>_ w2.
            (case (if workspaceSize > 0
                   then (case pool_alloc_ctor ctx workspaceSize w2 of
                           (p, wa) \<Rightarrow> (Some p, pool_alloc_dtor p wa))
                   else (None, w2)) of
               (workspaceAddr, w3) \<Rightarrow>
                 (case aclnnExecute ctx OP_NAME kern workspaceAddr workspaceSize w3 of
                    (st2, w4) \<Rightarrow> ACL_CHECK (''aclnn'' @ OP_NAME) st2 w4))))"

subsection \<open>Handles\<close>

text \<open>
  \<^verbatim>\<open>aclCreateTensor\<close> and \<^verbatim>\<open>aclDestroyTensor\<close> of the accelerator runtime: the
  handle-construction call taking extents, strides, type and address, and the
  handle-destruction call, which returns a status.
\<close>

definition aclCreateTensor :: "acl_tensor \<Rightarrow> world \<Rightarrow> acl_tensor \<times> world" where
  "aclCreateTensor h w = (h, emit (CreateTensor h) w)"

definition aclDestroyTensor :: "runtime \<Rightarrow> acl_tensor \<Rightarrow> world \<Rightarrow> int \<times> world" where
  "aclDestroyTensor ctx h w = (destroy_status ctx h, emit (DestroyTensor h) w)"

text \<open>
  Modelled from the spec: \<^verbatim>\<open>ggml_cann_create_tensor\<close> of \<^verbatim>\<open>acl_tensor.h\<close>, the
  tensor-handle adapter. The handle has the descriptor's extents, its strides converted
  from bytes to elements, its element size and its data pointer; no data is copied. (The
  element size of a ggml type is positive.)
\<close>

definition acl_view :: "ggml_tensor \<Rightarrow> acl_tensor" where
  "acl_view t = \<lparr>acl_dims = ne t, acl_strides = map (\<lambda>b. b div type_size t) (nb t),
                 acl_elem_size = type_size t, acl_data = data t\<rparr>"

definition ggml_cann_create_tensor :: "ggml_tensor \<Rightarrow> world \<Rightarrow> acl_tensor \<times> world" where
  "ggml_cann_create_tensor t w = aclCreateTensor (acl_view t) w"

subsection \<open>The broadcast resolver\<close>

text \<open>
  Modelled from the spec: \<^verbatim>\<open>bcast_shape\<close>, which the header only declares. The two
  source shapes are compared dimension by dimension. Equal shapes give the three handles
  of the adapter. Otherwise a dimension whose extents differ with neither equal to 1 is a
  broadcast-incompatibility failure naming that dimension, raised before any handle is
  built; and an operand whose extent is 1 where the other's is not gets a virtual view of
  the other's extent with stride 0 along that dimension. The destination handle always
  has the destination's own shape.
\<close>

fun bcast_mismatch :: "nat \<Rightarrow> nat list \<Rightarrow> nat list \<Rightarrow> nat option" where
  "bcast_mismatch i (n # ns) (m # ms) =
     (if n \<noteq> m \<and> n \<noteq> 1 \<and> m \<noteq> 1 then Some i else bcast_mismatch (Suc i) ns ms)"
| "bcast_mismatch i ns ms = None"

fun expand_dims :: "nat list \<Rightarrow> nat list \<Rightarrow> nat list" where
  "expand_dims (n # ns) (m # ms) = (if n = 1 \<and> m \<noteq> n then m else n) # expand_dims ns ms"
| "expand_dims ns ms = ns"

fun expand_strides :: "nat list \<Rightarrow> nat list \<Rightarrow> nat list \<Rightarrow> nat list" where
  "expand_strides (n # ns) (s # ss) (m # ms) =
     (if n = 1 \<and> m \<noteq> n then 0 else s) # expand_strides ns ss ms"
| "expand_strides ns ss ms = ss"

definition bcast_view :: "ggml_tensor \<Rightarrow> ggml_tensor \<Rightarrow> acl_tensor" where
  "bcast_view t other =
     (acl_view t)\<lparr>acl_dims := expand_dims (ne t) (ne other),
                  acl_strides := expand_strides (ne t) (acl_strides (acl_view t)) (ne other)\<rparr>"

definition create3 ::
  "acl_tensor \<Rightarrow> acl_tensor \<Rightarrow> acl_tensor \<Rightarrow> world
     \<Rightarrow> (acl_tensor \<times> acl_tensor \<times> acl_tensor) outcome" where
  "create3 v0 v1 vd w =
     (case aclCreateTensor v0 w of (acl_src0, w1) \<Rightarrow>
      case aclCreateTensor v1 w1 of (acl_src1, w2) \<Rightarrow>
      case aclCreateTensor vd w2 of (acl_dst, w3) \<Rightarrow>
        Done (acl_src0, acl_src1, acl_dst) w3)"

definition bcast_shape ::
  "ggml_tensor \<Rightarrow> ggml_tensor \<Rightarrow> ggml_tensor \<Rightarrow> world
     \<Rightarrow> (acl_tensor \<times> acl_tensor \<times> acl_tensor) outcome" where
  "bcast_shape src0 src1 dst w =
     (if ne src0 = ne src1
      then create3 (acl_view src0) (acl_view src1) (acl_view dst) w
      else (case bcast_mismatch 0 (ne src0) (ne src1) of
              Some i \<Rightarrow> Abort (BroadcastIncompatible i) w
            | None \<Rightarrow> create3 (bcast_view src0 src1) (bcast_view src1 src0) (acl_view dst) w))"

text \<open>
  Whether the resolver accepts two sources, and the views it then gives them (read off
  \<open>bcast_shape\<close>).
\<close>

definition bcast_compatible :: "ggml_tensor \<Rightarrow> ggml_tensor \<Rightarrow> bool" where
  "bcast_compatible src0 src1 =
     (ne src0 = ne src1 \<or> bcast_mismatch 0 (ne src0) (ne src1) = None)"

definition resolved_view :: "ggml_tensor \<Rightarrow> ggml_tensor \<Rightarrow> acl_tensor" where
  "resolved_view t other = (if ne t = ne other then acl_view t else bcast_view t other)"

subsection \<open>The dispatch templates\<close>

text \<open>
  \<^verbatim>\<open>ggml_cann_binary_op<binary_op>(ctx, dst)\<close>. The sources are \<^verbatim>\<open>dst->src[0]\<close>
  and \<^verbatim>\<open>dst->src[1]\<close>; a missing source is a null pointer, whose use ends the run.
  The operator procedure returns nothing: its failure is an abort, after which none of
  the statements that follow it runs.
\<close>

definition ggml_cann_binary_op ::
  "(runtime \<Rightarrow> acl_tensor \<Rightarrow> acl_tensor \<Rightarrow> acl_tensor \<Rightarrow> world \<Rightarrow> unit outcome)
     \<Rightarrow> runtime \<Rightarrow> ggml_tensor \<Rightarrow> world \<Rightarrow> unit outcome" where
  "ggml_cann_binary_op binary_op ctx dst w =
     (case src dst of
        src0 # src1 # rest \<Rightarrow>
          and_then (bcast_shape src0 src1 dst w) (\<lambda>(acl_src0, acl_src1, acl_dst) w1.
          and_then (binary_op ctx acl_src0 acl_src1 acl_dst w1) (\<lambda>_ w2.
          (case aclDestroyTensor ctx acl_src0 w2 of (st0, w3) \<Rightarrow>
          and_then (ACL_CHECK ''aclDestroyTensor(acl_src0)'' st0 w3) (\<lambda>_ w4.
          (case aclDestroyTensor ctx acl_src1 w4 of (st1, w5) \<Rightarrow>
          and_then (ACL_CHECK ''aclDestroyTensor(acl_src1)'' st1 w5) (\<lambda>_ w6.
          (case aclDestroyTensor ctx acl_dst w6 of (st2, w7) \<Rightarrow>
          ACL_CHECK ''aclDestroyTensor(acl_dst)'' st2 w7)))))))
      | _ \<Rightarrow> Abort NullTensor w)"

text \<open>\<^verbatim>\<open>ggml_cann_unary_op<unary_op>(ctx, dst)\<close>; the source is \<^verbatim>\<open>dst->src[0]\<close>.\<close>

definition ggml_cann_unary_op ::
  "(runtime \<Rightarrow> acl_tensor \<Rightarrow> acl_tensor \<Rightarrow> world \<Rightarrow> unit outcome)
     \<Rightarrow> runtime \<Rightarrow> ggml_tensor \<Rightarrow> world \<Rightarrow> unit outcome" where
  "ggml_cann_unary_op unary_op ctx dst w =
     (case src dst of
        src0 # rest \<Rightarrow>
          (case ggml_cann_create_tensor src0 w of (acl_src, w1) \<Rightarrow>
          (case ggml_cann_create_tensor dst w1 of (acl_dst, w2) \<Rightarrow>
          and_then (unary_op ctx acl_src acl_dst w2) (\<lambda>_ w3.
          (case aclDestroyTensor ctx acl_src w3 of (st0, w4) \<Rightarrow>
          and_then (ACL_CHECK ''aclDestroyTensor(acl_src)'' st0 w4) (\<lambda>_ w5.
          (case aclDestroyTensor ctx acl_dst w5 of (st1, w6) \<Rightarrow>
          ACL_CHECK ''aclDestroyTensor(acl_dst)'' st1 w6))))))
      | [] \<Rightarrow> Abort NullTensor w)"

subsection \<open>Elementwise kernels of the operator library\<close>

text \<open>
  The kernels belong to the vendor's library. An elementwise kernel is taken as what the
  handles describe: it visits every index of the destination view, reads each source
  view (as it was before the call) at that index through the source's strides, and writes
  the result through the destination's strides. Values are real numbers; rounding is
  outside the model.
\<close>

fun dot :: "nat list \<Rightarrow> nat list \<Rightarrow> nat" where
  "dot (i # idx) (s # ss) = i * s + dot idx ss"
| "dot idx ss = 0"

definition elem_addr :: "acl_tensor \<Rightarrow> nat list \<Rightarrow> addr" where
  "elem_addr h idx = acl_data h + acl_elem_size h * dot idx (acl_strides h)"

text \<open>All indices of a view, the first (innermost) dimension running fastest.\<close>

fun indices :: "nat list \<Rightarrow> nat list list" where
  "indices [] = [[]]"
| "indices (n # ns) = concat (map (\<lambda>rest. map (\<lambda>i. i # rest) [0..<n]) (indices ns))"

fun write_all ::
  "(nat list \<Rightarrow> addr) \<Rightarrow> (nat list \<Rightarrow> real) \<Rightarrow> nat list list \<Rightarrow> (addr \<Rightarrow> real)
     \<Rightarrow> (addr \<Rightarrow> real)" where
  "write_all a v [] m = m"
| "write_all a v (idx # rest) m = write_all a v rest (m(a idx := v idx))"

definition ew_unary ::
  "(real \<Rightarrow> real) \<Rightarrow> acl_tensor \<Rightarrow> acl_tensor \<Rightarrow> (addr \<Rightarrow> real) \<Rightarrow> (addr \<Rightarrow> real)" where
  "ew_unary g acl_src acl_dst m =
     write_all (elem_addr acl_dst) (\<lambda>idx. g (m (elem_addr acl_src idx)))
       (indices (acl_dims acl_dst)) m"

definition ew_binary ::
  "(real \<Rightarrow> real \<Rightarrow> real) \<Rightarrow> acl_tensor \<Rightarrow> acl_tensor \<Rightarrow> acl_tensor
     \<Rightarrow> (addr \<Rightarrow> real) \<Rightarrow> (addr \<Rightarrow> real)" where
  "ew_binary f acl_src0 acl_src1 acl_dst m =
     write_all (elem_addr acl_dst)
       (\<lambda>idx. f (m (elem_addr acl_src0 idx)) (m (elem_addr acl_src1 idx)))
       (indices (acl_dims acl_dst)) m"

text \<open>
  \<^verbatim>\<open>GGML_CANN_CALL_UNARY_OP(OP_NAME)\<close> wraps one protocol call on the two handles in a
  lambda and instantiates the unary template with it. The function \<open>g\<close> is what the
  kernel of the operator computes for one element.
\<close>

definition unary_lambda ::
  "string \<Rightarrow> (real \<Rightarrow> real) \<Rightarrow> runtime \<Rightarrow> acl_tensor \<Rightarrow> acl_tensor \<Rightarrow> world \<Rightarrow> unit outcome" where
  "unary_lambda OP_NAME g ctx acl_src acl_dst w =
     GGML_CANN_CALL_ACLNN_OP ctx OP_NAME (ew_unary g acl_src acl_dst) w"

definition GGML_CANN_CALL_UNARY_OP ::
  "string \<Rightarrow> (real \<Rightarrow> real) \<Rightarrow> runtime \<Rightarrow> ggml_tensor \<Rightarrow> world \<Rightarrow> unit outcome" where
  "GGML_CANN_CALL_UNARY_OP OP_NAME g ctx dst w =
     ggml_cann_unary_op (unary_lambda OP_NAME g) ctx dst w"

text \<open>
  Modelled from the spec: a two-operand operator procedure handed to the binary template
  (the header only declares \<^verbatim>\<open>aclnn_add\<close> and its siblings). By the spec it follows
  the two-phase protocol on the three handles; here it is one protocol call of an
  elementwise kernel computing \<open>f\<close>.
\<close>

definition binary_proc ::
  "string \<Rightarrow> (real \<Rightarrow> real \<Rightarrow> real) \<Rightarrow> runtime \<Rightarrow> acl_tensor \<Rightarrow> acl_tensor \<Rightarrow> acl_tensor
     \<Rightarrow> world \<Rightarrow> unit outcome" where
  "binary_proc OP_NAME f ctx acl_src0 acl_src1 acl_dst w =
     GGML_CANN_CALL_ACLNN_OP ctx OP_NAME (ew_binary f acl_src0 acl_src1 acl_dst) w"

subsection \<open>Clamp\<close>

text \<open>
  Modelled from the spec: \<^verbatim>\<open>ggml_cann_clamp\<close>, which the header only declares. By
  the header's description the bounds \<^verbatim>\<open>min\<close> and \<^verbatim>\<open>max\<close> are the first two
  parameters of the destination node and the result is
  \<^verbatim>\<open>y = max(min(x, max_value), min_value)\<close> for every element; by the spec the entry
  point is an instance of the unary dispatch with the operator's own kernel. The
  parameter block is a fixed array, so a parameter that is not listed is 0.
\<close>

definition op_param :: "ggml_tensor \<Rightarrow> nat \<Rightarrow> real" where
  "op_param t k = (if k < length (op_params t) then op_params t ! k else 0)"

definition ggml_cann_clamp :: "runtime \<Rightarrow> ggml_tensor \<Rightarrow> world \<Rightarrow> unit outcome" where
  "ggml_cann_clamp ctx dst w =
     (let min_value = op_param dst 0; max_value = op_param dst 1
      in GGML_CANN_CALL_UNARY_OP ''Clamp'' (\<lambda>x. max (min x max_value) min_value) ctx dst w)"

subsection \<open>Reading traces and views\<close>

text \<open>The events a call adds to the trace of the world it started in.\<close>

definition events_of :: "world \<Rightarrow> 'r outcome \<Rightarrow> event list" where
  "events_of w m = drop (length (trace w)) (trace (world_of m))"

text \<open>
  The spec's step (4) of the protocol, in its own words: the release of the workspace is
  the event right after the execute-phase submission.
\<close>

fun position :: "('a \<Rightarrow> bool) \<Rightarrow> 'a list \<Rightarrow> nat option" where
  "position P [] = None"
| "position P (x # xs) = (if P x then Some 0 else map_option Suc (position P xs))"

fun is_launch :: "event \<Rightarrow> bool" where
  "is_launch (Launch n p s) = True"
| "is_launch e = False"

fun is_pool_free :: "event \<Rightarrow> bool" where
  "is_pool_free (PoolFree p) = True"
| "is_pool_free e = False"

definition released_right_after_submission :: "event list \<Rightarrow> bool" where
  "released_right_after_submission es =
     (case (position is_launch es, position is_pool_free es) of
        (Some i, Some j) \<Rightarrow> j = Suc i
      | _ \<Rightarrow> False)"

text \<open>The contents of a tensor, read through its descriptor in index order.\<close>

definition read_tensor :: "(addr \<Rightarrow> real) \<Rightarrow> ggml_tensor \<Rightarrow> real list" where
  "read_tensor m t = map (\<lambda>idx. m (elem_addr (acl_view t) idx)) (indices (ne t))"

text \<open>
  The index a broadcast operand is read at: each coordinate modulo the operand's own
  extent, so that an operand of extent 1 is repeated along that dimension.
\<close>

fun bcast_index :: "nat list \<Rightarrow> nat list \<Rightarrow> nat list" where
  "bcast_index (i # idx) (n # ns) = (i mod n) # bcast_index idx ns"
| "bcast_index idx ns = []"

text \<open>Projections of a trace used to state properties.\<close>

fun pool_allocs :: "event list \<Rightarrow> (64 word \<times> addr) list" where
  "pool_allocs [] = []"
| "pool_allocs (PoolAlloc n p # es) = (n, p) # pool_allocs es"
| "pool_allocs (e # es) = pool_allocs es"

fun launches :: "event list \<Rightarrow> (string \<times> addr option \<times> 64 word) list" where
  "launches [] = []"
| "launches (Launch n p s # es) = (n, p, s) # launches es"
| "launches (e # es) = launches es"

fun queries :: "event list \<Rightarrow> string list" where
  "queries [] = []"
| "queries (GetWorkspaceSize n # es) = n # queries es"
| "queries (e # es) = queries es"

fun created :: "event list \<Rightarrow> acl_tensor list" where
  "created [] = []"
| "created (CreateTensor h # es) = h # created es"
| "created (e # es) = created es"

fun destroyed :: "event list \<Rightarrow> acl_tensor list" where
  "destroyed [] = []"
| "destroyed (DestroyTensor h # es) = h # destroyed es"
| "destroyed (e # es) = destroyed es"

subsection \<open>Example inputs\<close>

text \<open>A runtime in which every call succeeds and every operator asks for 16 bytes.\<close>

definition rt_ok :: runtime where
  "rt_ok = \<lparr>ws_status = (\<lambda>_. 0), ws_size = (\<lambda>_. 16), exec_status = (\<lambda>_. 0),
            destroy_status = (\<lambda>_. 0), pool_ptr = (\<lambda>_. 4096)\<rparr>"

definition w_init :: world where
  "w_init = \<lparr>trace = [], mem = (\<lambda>_. 0)\<rparr>"

text \<open>A runtime whose workspace query fails with status 1, and one that needs no workspace.\<close>

definition rt_query_fails :: runtime where
  "rt_query_fails = rt_ok\<lparr>ws_status := (\<lambda>_. 1)\<rparr>"

definition rt_no_workspace :: runtime where
  "rt_no_workspace = rt_ok\<lparr>ws_size := (\<lambda>_. 0)\<rparr>"

text \<open>
  Float tensors of four dimensions, innermost extent first as in ggml. \<open>t_src\<close> and
  \<open>t_dst\<close> are a row of three elements and the node of a unary operator on it, whose
  parameters are the bounds 0 and 1. \<open>a23\<close> is the 2 x 3 matrix (two rows of three),
  \<open>b21\<close> the 2 x 1 matrix, \<open>b24\<close> the 2 x 4 matrix; \<open>sum23\<close> and \<open>sum24\<close> are the
  nodes of a binary operator on \<open>a23\<close> with \<open>b21\<close> and with \<open>b24\<close>.
\<close>

definition t_src :: ggml_tensor where
  "t_src = Tensor 4 [3, 1, 1, 1] [4, 12, 12, 12] [] 100 []"

definition t_dst :: ggml_tensor where
  "t_dst = Tensor 4 [3, 1, 1, 1] [4, 12, 12, 12] [0, 1] 200 [t_src]"

definition a23 :: ggml_tensor where
  "a23 = Tensor 4 [3, 2, 1, 1] [4, 12, 24, 24] [] 1000 []"

definition b21 :: ggml_tensor where
  "b21 = Tensor 4 [1, 2, 1, 1] [4, 4, 8, 8] [] 2000 []"

definition b24 :: ggml_tensor where
  "b24 = Tensor 4 [4, 2, 1, 1] [4, 16, 32, 32] [] 2000 []"

definition sum23 :: ggml_tensor where
  "sum23 = Tensor 4 [3, 2, 1, 1] [4, 12, 24, 24] [] 3000 [a23, b21]"

definition sum24 :: ggml_tensor where
  "sum24 = Tensor 4 [3, 2, 1, 1] [4, 12, 24, 24] [] 3000 [a23, b24]"

text \<open>
  A runtime whose execute phase fails with status 2, and one in which destroying the
  handle of a destination (\<open>t_dst\<close> at address 200, \<open>sum23\<close> at 3000) fails with
  status 7.
\<close>

definition rt_exec_fails :: runtime where
  "rt_exec_fails = rt_ok\<lparr>exec_status := (\<lambda>_. 2)\<rparr>"

definition rt_destroy_fails :: runtime where
  "rt_destroy_fails =
     rt_ok\<lparr>destroy_status := (\<lambda>h. if acl_data h = 200 \<or> acl_data h = 3000 then 7 else 0)\<rparr>"

text \<open>
  Two more nodes on \<open>t_src\<close>: \<open>t_clamp\<close> carries the bounds 1/4 and 3/2, and
  \<open>t_inplace\<close> is an in-place node, whose data pointer is that of its source.
\<close>

definition t_clamp :: ggml_tensor where
  "t_clamp = Tensor 4 [3, 1, 1, 1] [4, 12, 12, 12] [1 / 4, 3 / 2] 300 [t_src]"

definition t_inplace :: ggml_tensor where
  "t_inplace = Tensor 4 [3, 1, 1, 1] [4, 12, 12, 12] [] 100 [t_src]"

text \<open>
  Device memory holding 1..6 at the elements of \<open>a23\<close>, 10 and 20 at those of
  \<open>b21\<close>, and -1, 0.5, 2 at those of \<open>t_src\<close>.
\<close>

definition mem_ex :: "addr \<Rightarrow> real" where
  "mem_ex = (\<lambda>_. 0)(1000 := 1, 1004 := 2, 1008 := 3, 1012 := 4, 1016 := 5, 1020 := 6,
                     2000 := 10, 2004 := 20, 100 := - 1, 104 := 1 / 2, 108 := 2)"

definition w_ex :: world where
  "w_ex = \<lparr>trace = [], mem = mem_ex\<rparr>"

section \<open>Properties of the two-phase protocol\<close>

lemma created_append: "created (xs @ ys) = created xs @ created ys"
  by (induction xs rule: created.induct) simp_all

lemma destroyed_append: "destroyed (xs @ ys) = destroyed xs @ destroyed ys"
  by (induction xs rule: destroyed.induct) simp_all

text \<open>What one protocol call adds to the trace, how it ends, and what it leaves in memory.\<close>

lemma call_events:
  "events_of w (GGML_CANN_CALL_ACLNN_OP ctx OP kern w) =
     GetWorkspaceSize OP #
     (if ws_status ctx OP \<noteq> ACL_SUCCESS then []
      else if ws_size ctx OP > 0
        then [PoolAlloc (ws_size ctx OP) (pool_ptr ctx (ws_size ctx OP)),
              PoolFree (pool_ptr ctx (ws_size ctx OP)),
              Launch OP (Some (pool_ptr ctx (ws_size ctx OP))) (ws_size ctx OP)]
        else [Launch OP None (ws_size ctx OP)])"
  by (simp add: events_of_def world_of_def GGML_CANN_CALL_ACLNN_OP_def aclnnGetWorkspaceSize_def
      ACL_CHECK_def and_then_def pool_alloc_ctor_def pool_alloc_dtor_def aclnnExecute_def emit_def)

lemma call_failure:
  "failure_of (GGML_CANN_CALL_ACLNN_OP ctx OP kern w) =
     (if ws_status ctx OP \<noteq> ACL_SUCCESS
        then Some (AclError (''aclnn'' @ OP @ ''GetWorkspaceSize'') (ws_status ctx OP))
      else if exec_status ctx OP \<noteq> ACL_SUCCESS
        then Some (AclError (''aclnn'' @ OP) (exec_status ctx OP))
      else None)"
  by (simp add: failure_of_def GGML_CANN_CALL_ACLNN_OP_def aclnnGetWorkspaceSize_def
      ACL_CHECK_def and_then_def pool_alloc_ctor_def pool_alloc_dtor_def aclnnExecute_def emit_def)

lemma call_mem:
  "mem (world_of (GGML_CANN_CALL_ACLNN_OP ctx OP kern w)) =
     (if ws_status ctx OP = ACL_SUCCESS \<and> exec_status ctx OP = ACL_SUCCESS
      then kern (mem w) else mem w)"
  by (simp add: world_of_def GGML_CANN_CALL_ACLNN_OP_def aclnnGetWorkspaceSize_def
      ACL_CHECK_def and_then_def pool_alloc_ctor_def pool_alloc_dtor_def aclnnExecute_def emit_def)

lemma call_trace:
  "trace (world_of (GGML_CANN_CALL_ACLNN_OP ctx OP kern w)) =
     trace w @ events_of w (GGML_CANN_CALL_ACLNN_OP ctx OP kern w)"
  by (simp add: events_of_def world_of_def GGML_CANN_CALL_ACLNN_OP_def aclnnGetWorkspaceSize_def
      ACL_CHECK_def and_then_def pool_alloc_ctor_def pool_alloc_dtor_def aclnnExecute_def emit_def)

lemma call_done:
  "ws_status ctx OP = ACL_SUCCESS \<Longrightarrow> exec_status ctx OP = ACL_SUCCESS \<Longrightarrow>
   GGML_CANN_CALL_ACLNN_OP ctx OP kern w =
     Done () (world_of (GGML_CANN_CALL_ACLNN_OP ctx OP kern w))"
  by (simp add: world_of_def GGML_CANN_CALL_ACLNN_OP_def aclnnGetWorkspaceSize_def
      ACL_CHECK_def and_then_def pool_alloc_ctor_def pool_alloc_dtor_def aclnnExecute_def emit_def)

text \<open>
  Claim C4. When the query phase succeeds and reports a nonzero workspace size, the call
  makes exactly one pool acquisition, of exactly the reported number of bytes, and the
  execute phase gets that pointer and that size. When it reports zero, the call makes no
  pool acquisition and the execute phase gets the null pointer and size zero.
\<close>

theorem workspace_acquire_exact:
  assumes "ws_status ctx OP = ACL_SUCCESS"
  shows "(ws_size ctx OP \<noteq> 0 \<longrightarrow>
            pool_allocs (events_of w (GGML_CANN_CALL_ACLNN_OP ctx OP kern w)) =
              [(ws_size ctx OP, pool_ptr ctx (ws_size ctx OP))] \<and>
            launches (events_of w (GGML_CANN_CALL_ACLNN_OP ctx OP kern w)) =
              [(OP, Some (pool_ptr ctx (ws_size ctx OP)), ws_size ctx OP)]) \<and>
         (ws_size ctx OP = 0 \<longrightarrow>
            pool_allocs (events_of w (GGML_CANN_CALL_ACLNN_OP ctx OP kern w)) = [] \<and>
            launches (events_of w (GGML_CANN_CALL_ACLNN_OP ctx OP kern w)) = [(OP, None, 0)])"
  using assms by (simp add: call_events word_gt_0)

theorem workspace_acquire_exact_witness:
  "ws_status rt_ok ''Add'' = ACL_SUCCESS \<and> ws_size rt_ok ''Add'' \<noteq> 0 \<and>
   pool_allocs (events_of w_init (GGML_CANN_CALL_ACLNN_OP rt_ok ''Add'' id w_init)) =
     [(16, 4096)] \<and>
   launches (events_of w_init (GGML_CANN_CALL_ACLNN_OP rt_ok ''Add'' id w_init)) =
     [(''Add'', Some 4096, 16)] \<and>
   ws_status rt_no_workspace ''Add'' = ACL_SUCCESS \<and>
   ws_size rt_no_workspace ''Add'' = 0 \<and>
   pool_allocs (events_of w_init (GGML_CANN_CALL_ACLNN_OP rt_no_workspace ''Add'' id w_init)) =
     [] \<and>
   launches (events_of w_init (GGML_CANN_CALL_ACLNN_OP rt_no_workspace ''Add'' id w_init)) =
     [(''Add'', None, 0)]"
  using workspace_acquire_exact [of rt_ok "''Add''" w_init id]
    workspace_acquire_exact [of rt_no_workspace "''Add''" w_init id]
  by (simp add: rt_ok_def rt_no_workspace_def ACL_SUCCESS_def)

text \<open>
  Claim C3, as stated, fails: with a workspace of 16 bytes the release is the event before
  the execute-phase submission, not the one after it.
\<close>

theorem release_after_submission_counterexample:
  "events_of w_init (GGML_CANN_CALL_ACLNN_OP rt_ok ''Add'' id w_init) =
     [GetWorkspaceSize ''Add'', PoolAlloc 16 4096, PoolFree 4096,
      Launch ''Add'' (Some 4096) 16] \<and>
   \<not> released_right_after_submission
        (events_of w_init (GGML_CANN_CALL_ACLNN_OP rt_ok ''Add'' id w_init))"
  by (simp add: call_events rt_ok_def ACL_SUCCESS_def released_right_after_submission_def)

text \<open>
  Claim C3, amended. When the query phase succeeds with a nonzero workspace size, the call
  makes four calls in this order: the query, the pool acquisition, the release of that
  allocation (the allocator object's scope ends with the block that acquired it), and the
  execute-phase submission, which is made with the pointer just released.
\<close>

theorem release_before_submission:
  assumes "ws_status ctx OP = ACL_SUCCESS" and "ws_size ctx OP \<noteq> 0"
  shows "events_of w (GGML_CANN_CALL_ACLNN_OP ctx OP kern w) =
           [GetWorkspaceSize OP,
            PoolAlloc (ws_size ctx OP) (pool_ptr ctx (ws_size ctx OP)),
            PoolFree (pool_ptr ctx (ws_size ctx OP)),
            Launch OP (Some (pool_ptr ctx (ws_size ctx OP))) (ws_size ctx OP)]"
  using assms by (simp add: call_events word_gt_0)

theorem release_before_submission_witness:
  "ws_status rt_ok ''Relu'' = ACL_SUCCESS \<and> ws_size rt_ok ''Relu'' \<noteq> 0 \<and>
   events_of w_init (GGML_CANN_CALL_ACLNN_OP rt_ok ''Relu'' id w_init) =
     [GetWorkspaceSize ''Relu'', PoolAlloc 16 4096, PoolFree 4096,
      Launch ''Relu'' (Some 4096) 16]"
  using release_before_submission [of rt_ok "''Relu''" w_init id]
  by (simp add: rt_ok_def ACL_SUCCESS_def)

section \<open>Properties of the resolver and the dispatch templates\<close>

text \<open>The resolver and the templates, one equation per path.\<close>

lemma bcast_shape_cases:
  "bcast_shape src0 src1 dst w =
     (if bcast_compatible src0 src1
      then Done (resolved_view src0 src1, resolved_view src1 src0, acl_view dst)
             (w\<lparr>trace := trace w @
                [CreateTensor (resolved_view src0 src1), CreateTensor (resolved_view src1 src0),
                 CreateTensor (acl_view dst)]\<rparr>)
      else Abort (BroadcastIncompatible (the (bcast_mismatch 0 (ne src0) (ne src1)))) w)"
  by (auto simp add: bcast_shape_def create3_def aclCreateTensor_def emit_def
      bcast_compatible_def resolved_view_def split: option.splits)

lemma unary_op_cases:
  assumes "src dst = src0 # rest"
  shows "ggml_cann_unary_op unary_op ctx dst w =
     (case unary_op ctx (acl_view src0) (acl_view dst)
             (w\<lparr>trace := trace w @ [CreateTensor (acl_view src0), CreateTensor (acl_view dst)]\<rparr>) of
        Abort e v \<Rightarrow> Abort e v
      | Done r v \<Rightarrow>
          if destroy_status ctx (acl_view src0) \<noteq> ACL_SUCCESS
          then Abort (AclError ''aclDestroyTensor(acl_src)'' (destroy_status ctx (acl_view src0)))
                 (v\<lparr>trace := trace v @ [DestroyTensor (acl_view src0)]\<rparr>)
          else if destroy_status ctx (acl_view dst) \<noteq> ACL_SUCCESS
          then Abort (AclError ''aclDestroyTensor(acl_dst)'' (destroy_status ctx (acl_view dst)))
                 (v\<lparr>trace := trace v @ [DestroyTensor (acl_view src0), DestroyTensor (acl_view dst)]\<rparr>)
          else Done ()
                 (v\<lparr>trace := trace v @ [DestroyTensor (acl_view src0), DestroyTensor (acl_view dst)]\<rparr>))"
  using assms
  by (simp add: ggml_cann_unary_op_def ggml_cann_create_tensor_def aclCreateTensor_def
      aclDestroyTensor_def and_then_def ACL_CHECK_def emit_def split: outcome.splits)

lemma binary_op_cases:
  assumes "src dst = src0 # src1 # rest" and "bcast_compatible src0 src1"
  shows "ggml_cann_binary_op binary_op ctx dst w =
     (case binary_op ctx (resolved_view src0 src1) (resolved_view src1 src0) (acl_view dst)
             (w\<lparr>trace := trace w @
                [CreateTensor (resolved_view src0 src1), CreateTensor (resolved_view src1 src0),
                 CreateTensor (acl_view dst)]\<rparr>) of
        Abort e v \<Rightarrow> Abort e v
      | Done r v \<Rightarrow>
          if destroy_status ctx (resolved_view src0 src1) \<noteq> ACL_SUCCESS
          then Abort (AclError ''aclDestroyTensor(acl_src0)''
                        (destroy_status ctx (resolved_view src0 src1)))
                 (v\<lparr>trace := trace v @ [DestroyTensor (resolved_view src0 src1)]\<rparr>)
          else if destroy_status ctx (resolved_view src1 src0) \<noteq> ACL_SUCCESS
          then Abort (AclError ''aclDestroyTensor(acl_src1)''
                        (destroy_status ctx (resolved_view src1 src0)))
                 (v\<lparr>trace := trace v @ [DestroyTensor (resolved_view src0 src1),
                                         DestroyTensor (resolved_view src1 src0)]\<rparr>)
          else if destroy_status ctx (acl_view dst) \<noteq> ACL_SUCCESS
          then Abort (AclError ''aclDestroyTensor(acl_dst)'' (destroy_status ctx (acl_view dst)))
                 (v\<lparr>trace := trace v @ [DestroyTensor (resolved_view src0 src1),
                                         DestroyTensor (resolved_view src1 src0),
                                         DestroyTensor (acl_view dst)]\<rparr>)
          else Done ()
                 (v\<lparr>trace := trace v @ [DestroyTensor (resolved_view src0 src1),
                                         DestroyTensor (resolved_view src1 src0),
                                         DestroyTensor (acl_view dst)]\<rparr>))"
  using assms
  by (simp add: ggml_cann_binary_op_def bcast_shape_cases
      aclDestroyTensor_def and_then_def ACL_CHECK_def emit_def split: outcome.splits)

lemma binary_op_incompatible:
  assumes "src dst = src0 # src1 # rest" and "\<not> bcast_compatible src0 src1"
  shows "ggml_cann_binary_op binary_op ctx dst w =
           Abort (BroadcastIncompatible (the (bcast_mismatch 0 (ne src0) (ne src1)))) w"
  using assms by (simp add: ggml_cann_binary_op_def bcast_shape_cases and_then_def)

lemma bcast_mismatch_first:
  assumes "i < length ns" "i < length ms" "ns ! i \<noteq> ms ! i" "ns ! i \<noteq> 1" "ms ! i \<noteq> 1"
  shows "\<exists>j\<le>i. bcast_mismatch k ns ms = Some (k + j) \<and>
            ns ! j \<noteq> ms ! j \<and> ns ! j \<noteq> 1 \<and> ms ! j \<noteq> 1"
  using assms
proof (induction k ns ms arbitrary: i rule: bcast_mismatch.induct)
  case (1 k n ns m ms)
  show ?case
  proof (cases "n \<noteq> m \<and> n \<noteq> 1 \<and> m \<noteq> 1")
    case True
    then show ?thesis by (intro exI [of _ 0]) simp
  next
    case False
    with 1 obtain i' where i': "i = Suc i'" by (cases i) auto
    with 1 False obtain j where "j \<le> i'" "bcast_mismatch (Suc k) ns ms = Some (Suc k + j)"
      "ns ! j \<noteq> ms ! j" "ns ! j \<noteq> 1" "ms ! j \<noteq> 1"
      by fastforce
    with False i' show ?thesis by (intro exI [of _ "Suc j"]) auto
  qed
qed simp_all

text \<open>
  Claim C5. When some dimension has extents that differ with neither equal to 1, the
  resolver fails with a broadcast-incompatibility error naming the first such dimension,
  and the binary template fails with it in the world it was called in: no handle was
  built and no call to the device was made.
\<close>

theorem incompatible_shapes_fail:
  assumes "src dst = src0 # src1 # rest"
    and "i < length (ne src0)" and "i < length (ne src1)"
    and "ne src0 ! i \<noteq> ne src1 ! i" and "ne src0 ! i \<noteq> 1" and "ne src1 ! i \<noteq> 1"
  shows "\<exists>j\<le>i. ne src0 ! j \<noteq> ne src1 ! j \<and> ne src0 ! j \<noteq> 1 \<and> ne src1 ! j \<noteq> 1 \<and>
           bcast_shape src0 src1 dst w = Abort (BroadcastIncompatible j) w \<and>
           ggml_cann_binary_op binary_op ctx dst w = Abort (BroadcastIncompatible j) w"
proof -
  from bcast_mismatch_first [OF assms(2-6), of 0] obtain j where
    j: "j \<le> i" "bcast_mismatch 0 (ne src0) (ne src1) = Some j"
       "ne src0 ! j \<noteq> ne src1 ! j" "ne src0 ! j \<noteq> 1" "ne src1 ! j \<noteq> 1"
    by auto
  from assms(4) have "ne src0 \<noteq> ne src1" by auto
  with j(2) have nc: "\<not> bcast_compatible src0 src1" by (simp add: bcast_compatible_def)
  with j assms(1) show ?thesis
    by (intro exI [of _ j]) (simp add: bcast_shape_cases binary_op_incompatible)
qed

theorem incompatible_shapes_fail_witness:
  "src sum24 = a23 # b24 # [] \<and> (0::nat) < length (ne a23) \<and> 0 < length (ne b24) \<and>
   ne a23 ! 0 \<noteq> ne b24 ! 0 \<and> ne a23 ! 0 \<noteq> 1 \<and> ne b24 ! 0 \<noteq> 1 \<and>
   bcast_shape a23 b24 sum24 w_init = Abort (BroadcastIncompatible 0) w_init \<and>
   ggml_cann_binary_op (binary_proc ''Add'' (+)) rt_ok sum24 w_init =
     Abort (BroadcastIncompatible 0) w_init \<and>
   events_of w_init (ggml_cann_binary_op (binary_proc ''Add'' (+)) rt_ok sum24 w_init) = []"
proof -
  have h: "src sum24 = a23 # b24 # []" "(0::nat) < length (ne a23)" "0 < length (ne b24)"
     "ne a23 ! 0 \<noteq> ne b24 ! 0" "ne a23 ! 0 \<noteq> 1" "ne b24 ! 0 \<noteq> 1"
    by (simp_all add: sum24_def a23_def b24_def)
  from incompatible_shapes_fail [where w = w_init and binary_op = "binary_proc ''Add'' (+)"
      and ctx = rt_ok, OF h]
  show ?thesis using h by (simp add: events_of_def world_of_def)
qed

text \<open>A protocol call neither creates nor destroys a tensor handle.\<close>

lemma protocol_neutral:
  "created (trace (world_of (GGML_CANN_CALL_ACLNN_OP ctx OP kern w))) = created (trace w) \<and>
   destroyed (trace (world_of (GGML_CANN_CALL_ACLNN_OP ctx OP kern w))) = destroyed (trace w)"
  by (simp add: call_trace call_events created_append destroyed_append)

text \<open>How an invocation of a template ends, whatever the operator procedure is.\<close>

lemma unary_failure:
  assumes "src dst = src0 # rest"
  shows "failure_of (ggml_cann_unary_op unary_op ctx dst w) =
     (if failure_of (unary_op ctx (acl_view src0) (acl_view dst)
           (emit (CreateTensor (acl_view dst)) (emit (CreateTensor (acl_view src0)) w))) \<noteq> None
      then failure_of (unary_op ctx (acl_view src0) (acl_view dst)
           (emit (CreateTensor (acl_view dst)) (emit (CreateTensor (acl_view src0)) w)))
      else if destroy_status ctx (acl_view src0) \<noteq> ACL_SUCCESS
        then Some (AclError ''aclDestroyTensor(acl_src)'' (destroy_status ctx (acl_view src0)))
      else if destroy_status ctx (acl_view dst) \<noteq> ACL_SUCCESS
        then Some (AclError ''aclDestroyTensor(acl_dst)'' (destroy_status ctx (acl_view dst)))
      else None)"
  unfolding unary_op_cases [OF assms]
  by (simp add: failure_of_def emit_def split: outcome.splits)

lemma binary_failure:
  assumes "src dst = src0 # src1 # rest" and "bcast_compatible src0 src1"
  shows "failure_of (ggml_cann_binary_op binary_op ctx dst w) =
     (if failure_of (binary_op ctx (resolved_view src0 src1) (resolved_view src1 src0)
           (acl_view dst)
           (emit (CreateTensor (acl_view dst))
             (emit (CreateTensor (resolved_view src1 src0))
               (emit (CreateTensor (resolved_view src0 src1)) w)))) \<noteq> None
      then failure_of (binary_op ctx (resolved_view src0 src1) (resolved_view src1 src0)
           (acl_view dst)
           (emit (CreateTensor (acl_view dst))
             (emit (CreateTensor (resolved_view src1 src0))
               (emit (CreateTensor (resolved_view src0 src1)) w))))
      else if destroy_status ctx (resolved_view src0 src1) \<noteq> ACL_SUCCESS
        then Some (AclError ''aclDestroyTensor(acl_src0)''
                     (destroy_status ctx (resolved_view src0 src1)))
      else if destroy_status ctx (resolved_view src1 src0) \<noteq> ACL_SUCCESS
        then Some (AclError ''aclDestroyTensor(acl_src1)''
                     (destroy_status ctx (resolved_view src1 src0)))
      else if destroy_status ctx (acl_view dst) \<noteq> ACL_SUCCESS
        then Some (AclError ''aclDestroyTensor(acl_dst)'' (destroy_status ctx (acl_view dst)))
      else None)"
  unfolding binary_op_cases [OF assms]
  by (simp add: failure_of_def emit_def split: outcome.splits)

text \<open>
  Claim C2, as stated, fails: when the workspace query of the wrapped operator fails, the
  unary template has created two handles and destroyed none, and the binary template has
  created three and destroyed none.
\<close>

theorem handles_leak_counterexample:
  "failure_of (GGML_CANN_CALL_UNARY_OP ''Relu'' id rt_query_fails t_dst w_init) =
     Some (AclError ''aclnnReluGetWorkspaceSize'' 1) \<and>
   created (events_of w_init (GGML_CANN_CALL_UNARY_OP ''Relu'' id rt_query_fails t_dst w_init)) =
     [acl_view t_src, acl_view t_dst] \<and>
   destroyed (events_of w_init (GGML_CANN_CALL_UNARY_OP ''Relu'' id rt_query_fails t_dst w_init)) =
     [] \<and>
   failure_of (ggml_cann_binary_op (binary_proc ''Add'' (+)) rt_query_fails sum23 w_init) =
     Some (AclError ''aclnnAddGetWorkspaceSize'' 1) \<and>
   length (created (events_of w_init
      (ggml_cann_binary_op (binary_proc ''Add'' (+)) rt_query_fails sum23 w_init))) = 3 \<and>
   length (destroyed (events_of w_init
      (ggml_cann_binary_op (binary_proc ''Add'' (+)) rt_query_fails sum23 w_init))) = 0"
  by (simp add: GGML_CANN_CALL_UNARY_OP_def ggml_cann_unary_op_def unary_lambda_def
      ggml_cann_binary_op_def binary_proc_def bcast_shape_def create3_def
      ggml_cann_create_tensor_def aclCreateTensor_def aclDestroyTensor_def
      and_then_def ACL_CHECK_def GGML_CANN_CALL_ACLNN_OP_def aclnnGetWorkspaceSize_def
      pool_alloc_ctor_def pool_alloc_dtor_def aclnnExecute_def emit_def
      events_of_def world_of_def failure_of_def
      rt_query_fails_def rt_ok_def w_init_def t_dst_def sum23_def a23_def b21_def ACL_SUCCESS_def)

text \<open>
  Claim C2, amended. For an operator procedure that itself creates and destroys no tensor
  handle: the unary template creates two handles and the binary template (on sources the
  resolver accepts) three. The template destroys all of them when the operator procedure
  and every destroy call before the last succeed. When the operator procedure fails, the
  invocation ends there and none of the handles it created is destroyed; when a destroy
  call fails, the handles after it are not destroyed.
\<close>

theorem handles_destroyed:
  assumes usrcs: "src node = s # others"
    and srcs: "src dst = src0 # src1 # rest"
    and compat: "bcast_compatible src0 src1"
    and un: "\<forall>h0 h1 v. created (trace (world_of (unary_op ctx h0 h1 v))) = created (trace v) \<and>
               destroyed (trace (world_of (unary_op ctx h0 h1 v))) = destroyed (trace v)"
    and bn: "\<forall>h0 h1 h2 v.
               created (trace (world_of (binary_op ctx h0 h1 h2 v))) = created (trace v) \<and>
               destroyed (trace (world_of (binary_op ctx h0 h1 h2 v))) = destroyed (trace v)"
  shows "created (trace (world_of (ggml_cann_unary_op unary_op ctx node w))) =
           created (trace w) @ [acl_view s, acl_view node] \<and>
         destroyed (trace (world_of (ggml_cann_unary_op unary_op ctx node w))) =
           destroyed (trace w) @
           (if failure_of (unary_op ctx (acl_view s) (acl_view node)
                 (emit (CreateTensor (acl_view node)) (emit (CreateTensor (acl_view s)) w)))
               \<noteq> None then []
            else if destroy_status ctx (acl_view s) \<noteq> ACL_SUCCESS then [acl_view s]
            else [acl_view s, acl_view node]) \<and>
         created (trace (world_of (ggml_cann_binary_op binary_op ctx dst w))) =
           created (trace w) @ [resolved_view src0 src1, resolved_view src1 src0, acl_view dst] \<and>
         destroyed (trace (world_of (ggml_cann_binary_op binary_op ctx dst w))) =
           destroyed (trace w) @
           (if failure_of (binary_op ctx (resolved_view src0 src1) (resolved_view src1 src0)
                 (acl_view dst)
                 (emit (CreateTensor (acl_view dst))
                   (emit (CreateTensor (resolved_view src1 src0))
                     (emit (CreateTensor (resolved_view src0 src1)) w))))
               \<noteq> None then []
            else if destroy_status ctx (resolved_view src0 src1) \<noteq> ACL_SUCCESS
              then [resolved_view src0 src1]
            else if destroy_status ctx (resolved_view src1 src0) \<noteq> ACL_SUCCESS
              then [resolved_view src0 src1, resolved_view src1 src0]
            else [resolved_view src0 src1, resolved_view src1 src0, acl_view dst])"
proof -
  let ?w2 = "w\<lparr>trace := trace w @ [CreateTensor (acl_view s), CreateTensor (acl_view node)]\<rparr>"
  let ?w3 = "w\<lparr>trace := trace w @
                [CreateTensor (resolved_view src0 src1), CreateTensor (resolved_view src1 src0),
                 CreateTensor (acl_view dst)]\<rparr>"
  have e2: "emit (CreateTensor (acl_view node)) (emit (CreateTensor (acl_view s)) w) = ?w2"
    by (simp add: emit_def)
  have e3: "emit (CreateTensor (acl_view dst))
                   (emit (CreateTensor (resolved_view src1 src0))
                     (emit (CreateTensor (resolved_view src0 src1)) w)) = ?w3"
    by (simp add: emit_def)
  from un have u: "created (trace (world_of (unary_op ctx (acl_view s) (acl_view node) ?w2))) =
      created (trace ?w2) \<and>
      destroyed (trace (world_of (unary_op ctx (acl_view s) (acl_view node) ?w2))) =
      destroyed (trace ?w2)" by blast
  from bn have b: "created (trace (world_of (binary_op ctx (resolved_view src0 src1)
        (resolved_view src1 src0) (acl_view dst) ?w3))) = created (trace ?w3) \<and>
      destroyed (trace (world_of (binary_op ctx (resolved_view src0 src1)
        (resolved_view src1 src0) (acl_view dst) ?w3))) = destroyed (trace ?w3)" by blast
  have U: "created (trace (world_of (ggml_cann_unary_op unary_op ctx node w))) =
           created (trace w) @ [acl_view s, acl_view node] \<and>
         destroyed (trace (world_of (ggml_cann_unary_op unary_op ctx node w))) =
           destroyed (trace w) @
           (if failure_of (unary_op ctx (acl_view s) (acl_view node) ?w2) \<noteq> None then []
            else if destroy_status ctx (acl_view s) \<noteq> ACL_SUCCESS then [acl_view s]
            else [acl_view s, acl_view node])"
    using u unfolding unary_op_cases [OF usrcs]
    by (cases "unary_op ctx (acl_view s) (acl_view node) ?w2")
       (simp_all add: world_of_def failure_of_def created_append destroyed_append)
  have B: "created (trace (world_of (ggml_cann_binary_op binary_op ctx dst w))) =
           created (trace w) @ [resolved_view src0 src1, resolved_view src1 src0, acl_view dst] \<and>
         destroyed (trace (world_of (ggml_cann_binary_op binary_op ctx dst w))) =
           destroyed (trace w) @
           (if failure_of (binary_op ctx (resolved_view src0 src1) (resolved_view src1 src0)
                 (acl_view dst) ?w3) \<noteq> None then []
            else if destroy_status ctx (resolved_view src0 src1) \<noteq> ACL_SUCCESS
              then [resolved_view src0 src1]
            else if destroy_status ctx (resolved_view src1 src0) \<noteq> ACL_SUCCESS
              then [resolved_view src0 src1, resolved_view src1 src0]
            else [resolved_view src0 src1, resolved_view src1 src0, acl_view dst])"
    using b unfolding binary_op_cases [OF srcs compat]
    by (cases "binary_op ctx (resolved_view src0 src1) (resolved_view src1 src0) (acl_view dst) ?w3")
       (simp_all add: world_of_def failure_of_def created_append destroyed_append)
  show ?thesis unfolding e2 e3 using U B by blast
qed

theorem handles_destroyed_witness:
  "src t_dst = t_src # [] \<and> src sum23 = a23 # b21 # [] \<and> bcast_compatible a23 b21 \<and>
   created (trace (world_of (ggml_cann_unary_op (unary_lambda ''Relu'' id) rt_ok t_dst w_init))) =
     [acl_view t_src, acl_view t_dst] \<and>
   destroyed (trace (world_of (ggml_cann_unary_op (unary_lambda ''Relu'' id) rt_ok t_dst w_init))) =
     [acl_view t_src, acl_view t_dst] \<and>
   created (trace (world_of (ggml_cann_binary_op (binary_proc ''Add'' (+)) rt_ok sum23 w_init))) =
     [bcast_view a23 b21, bcast_view b21 a23, acl_view sum23] \<and>
   destroyed (trace (world_of (ggml_cann_binary_op (binary_proc ''Add'' (+)) rt_ok sum23 w_init))) =
     [bcast_view a23 b21, bcast_view b21 a23, acl_view sum23]"
proof -
  have 0: "src t_dst = t_src # []" by (simp add: t_dst_def)
  have 1: "src sum23 = a23 # b21 # []" by (simp add: sum23_def)
  have 2: "bcast_compatible a23 b21" by (simp add: bcast_compatible_def a23_def b21_def)
  have 3: "\<forall>h0 h1 v.
      created (trace (world_of (unary_lambda ''Relu'' id rt_ok h0 h1 v))) = created (trace v) \<and>
      destroyed (trace (world_of (unary_lambda ''Relu'' id rt_ok h0 h1 v))) = destroyed (trace v)"
    by (simp add: unary_lambda_def protocol_neutral)
  have 4: "\<forall>h0 h1 h2 v.
      created (trace (world_of (binary_proc ''Add'' (+) rt_ok h0 h1 h2 v))) = created (trace v) \<and>
      destroyed (trace (world_of (binary_proc ''Add'' (+) rt_ok h0 h1 h2 v))) = destroyed (trace v)"
    by (simp add: binary_proc_def protocol_neutral)
  have 5: "resolved_view a23 b21 = bcast_view a23 b21" "resolved_view b21 a23 = bcast_view b21 a23"
    by (simp_all add: resolved_view_def a23_def b21_def)
  show ?thesis
    using handles_destroyed [where unary_op = "unary_lambda ''Relu'' id"
        and binary_op = "binary_proc ''Add'' (+)" and ctx = rt_ok and w = w_init,
        OF 0 1 2 3 4] 0 1 2 5
    by (simp add: w_init_def unary_lambda_def binary_proc_def call_failure rt_ok_def
        ACL_SUCCESS_def)
qed

text \<open>
  Claim C10. In both templates the status of every handle destruction is checked: once
  the operator procedure has succeeded, the invocation fails with the status of the first
  destroy call that did not succeed, and it succeeds only when every destroy call did.
\<close>

theorem destroy_status_checked:
  assumes usrcs: "src node = s # others"
    and srcs: "src dst = src0 # src1 # rest"
    and compat: "bcast_compatible src0 src1"
    and u_ok: "failure_of (unary_op ctx (acl_view s) (acl_view node)
           (emit (CreateTensor (acl_view node)) (emit (CreateTensor (acl_view s)) w))) = None"
    and b_ok: "failure_of (binary_op ctx (resolved_view src0 src1) (resolved_view src1 src0)
           (acl_view dst)
           (emit (CreateTensor (acl_view dst))
             (emit (CreateTensor (resolved_view src1 src0))
               (emit (CreateTensor (resolved_view src0 src1)) w)))) = None"
  shows "failure_of (ggml_cann_unary_op unary_op ctx node w) =
          (if destroy_status ctx (acl_view s) \<noteq> ACL_SUCCESS
             then Some (AclError ''aclDestroyTensor(acl_src)''
                          (destroy_status ctx (acl_view s)))
           else if destroy_status ctx (acl_view node) \<noteq> ACL_SUCCESS
             then Some (AclError ''aclDestroyTensor(acl_dst)''
                          (destroy_status ctx (acl_view node)))
           else None) \<and>
         failure_of (ggml_cann_binary_op binary_op ctx dst w) =
          (if destroy_status ctx (resolved_view src0 src1) \<noteq> ACL_SUCCESS
             then Some (AclError ''aclDestroyTensor(acl_src0)''
                          (destroy_status ctx (resolved_view src0 src1)))
           else if destroy_status ctx (resolved_view src1 src0) \<noteq> ACL_SUCCESS
             then Some (AclError ''aclDestroyTensor(acl_src1)''
                          (destroy_status ctx (resolved_view src1 src0)))
           else if destroy_status ctx (acl_view dst) \<noteq> ACL_SUCCESS
             then Some (AclError ''aclDestroyTensor(acl_dst)''
                          (destroy_status ctx (acl_view dst)))
           else None)"
  using u_ok b_ok by (simp add: unary_failure [OF usrcs] binary_failure [OF srcs compat])

theorem destroy_status_checked_witness:
  "src t_dst = t_src # [] \<and> src sum23 = a23 # b21 # [] \<and> bcast_compatible a23 b21 \<and>
   destroy_status rt_destroy_fails (acl_view t_src) = ACL_SUCCESS \<and>
   destroy_status rt_destroy_fails (acl_view t_dst) = 7 \<and>
   destroy_status rt_destroy_fails (acl_view sum23) = 7 \<and>
   failure_of (ggml_cann_unary_op (unary_lambda ''Relu'' id) rt_destroy_fails t_dst w_init) =
     Some (AclError ''aclDestroyTensor(acl_dst)'' 7) \<and>
   failure_of (ggml_cann_binary_op (binary_proc ''Add'' (+)) rt_destroy_fails sum23 w_init) =
     Some (AclError ''aclDestroyTensor(acl_dst)'' 7)"
proof -
  have 0: "src t_dst = t_src # []" by (simp add: t_dst_def)
  have 1: "src sum23 = a23 # b21 # []" by (simp add: sum23_def)
  have 2: "bcast_compatible a23 b21" by (simp add: bcast_compatible_def a23_def b21_def)
  have 3: "failure_of (unary_lambda ''Relu'' id rt_destroy_fails (acl_view t_src) (acl_view t_dst)
           (emit (CreateTensor (acl_view t_dst)) (emit (CreateTensor (acl_view t_src)) w_init))) =
           None"
    by (simp add: unary_lambda_def call_failure rt_destroy_fails_def rt_ok_def ACL_SUCCESS_def)
  have 4: "failure_of (binary_proc ''Add'' (+) rt_destroy_fails (resolved_view a23 b21)
           (resolved_view b21 a23) (acl_view sum23)
           (emit (CreateTensor (acl_view sum23))
             (emit (CreateTensor (resolved_view b21 a23))
               (emit (CreateTensor (resolved_view a23 b21)) w_init)))) = None"
    by (simp add: binary_proc_def call_failure rt_destroy_fails_def rt_ok_def ACL_SUCCESS_def)
  have 5: "acl_data (acl_view t_src) = 100" "acl_data (acl_view t_dst) = 200"
    "acl_data (acl_view sum23) = 3000" "acl_data (resolved_view a23 b21) = 1000"
    "acl_data (resolved_view b21 a23) = 2000"
    by (simp_all add: resolved_view_def bcast_view_def acl_view_def t_src_def t_dst_def
        a23_def b21_def sum23_def)
  show ?thesis
    using destroy_status_checked [where unary_op = "unary_lambda ''Relu'' id"
        and binary_op = "binary_proc ''Add'' (+)" and ctx = rt_destroy_fails and w = w_init,
        OF 0 1 2 3 4] 0 1 2 5
    by (simp add: rt_destroy_fails_def rt_ok_def ACL_SUCCESS_def)
qed

text \<open>
  Claim C6. A protocol call fails exactly when the status of its query phase or of its
  execute phase is not the success value, and the failure carries the statement checked
  and that status. The query is made once, the execute phase at most once and only after
  a successful query (nothing is retried), and the same failure is the outcome of the
  unary and of the binary dispatch around the call.
\<close>

theorem status_failure_fatal:
  "failure_of (GGML_CANN_CALL_ACLNN_OP ctx OP kern w) =
     (if ws_status ctx OP \<noteq> ACL_SUCCESS
        then Some (AclError (''aclnn'' @ OP @ ''GetWorkspaceSize'') (ws_status ctx OP))
      else if exec_status ctx OP \<noteq> ACL_SUCCESS
        then Some (AclError (''aclnn'' @ OP) (exec_status ctx OP))
      else None) \<and>
   queries (events_of w (GGML_CANN_CALL_ACLNN_OP ctx OP kern w)) = [OP] \<and>
   length (launches (events_of w (GGML_CANN_CALL_ACLNN_OP ctx OP kern w))) =
     (if ws_status ctx OP = ACL_SUCCESS then 1 else 0) \<and>
   (src node = s # others \<and>
    failure_of (GGML_CANN_CALL_ACLNN_OP ctx OP kern w) \<noteq> None \<longrightarrow>
      failure_of (GGML_CANN_CALL_UNARY_OP OP g ctx node w') =
        failure_of (GGML_CANN_CALL_ACLNN_OP ctx OP kern w)) \<and>
   (src dst = src0 # src1 # rest \<and> bcast_compatible src0 src1 \<and>
    failure_of (GGML_CANN_CALL_ACLNN_OP ctx OP kern w) \<noteq> None \<longrightarrow>
      failure_of (ggml_cann_binary_op (binary_proc OP f) ctx dst w') =
        failure_of (GGML_CANN_CALL_ACLNN_OP ctx OP kern w))"
proof -
  have U: "failure_of (GGML_CANN_CALL_UNARY_OP OP g ctx node w') =
        failure_of (GGML_CANN_CALL_ACLNN_OP ctx OP kern w)"
    if usrcs: "src node = s # others"
      and fails: "failure_of (GGML_CANN_CALL_ACLNN_OP ctx OP kern w) \<noteq> None"
    using fails
    by (simp add: GGML_CANN_CALL_UNARY_OP_def unary_failure [OF usrcs] unary_lambda_def
        call_failure)
  have B: "failure_of (ggml_cann_binary_op (binary_proc OP f) ctx dst w') =
        failure_of (GGML_CANN_CALL_ACLNN_OP ctx OP kern w)"
    if srcs: "src dst = src0 # src1 # rest" and compat: "bcast_compatible src0 src1"
      and fails: "failure_of (GGML_CANN_CALL_ACLNN_OP ctx OP kern w) \<noteq> None"
    using fails
    by (simp add: binary_failure [OF srcs compat] binary_proc_def call_failure)
  from U B show ?thesis by (simp add: call_failure call_events)
qed

theorem status_failure_fatal_witness:
  "src t_dst = t_src # [] \<and> src sum23 = a23 # b21 # [] \<and> bcast_compatible a23 b21 \<and>
   failure_of (GGML_CANN_CALL_ACLNN_OP rt_exec_fails ''Add'' id w_init) =
     Some (AclError ''aclnnAdd'' 2) \<and>
   failure_of (GGML_CANN_CALL_UNARY_OP ''Add'' id rt_exec_fails t_dst w_init) =
     Some (AclError ''aclnnAdd'' 2) \<and>
   failure_of (ggml_cann_binary_op (binary_proc ''Add'' (+)) rt_exec_fails sum23 w_init) =
     Some (AclError ''aclnnAdd'' 2) \<and>
   queries (events_of w_init (GGML_CANN_CALL_ACLNN_OP rt_exec_fails ''Add'' id w_init)) =
     [''Add''] \<and>
   length (launches (events_of w_init
     (GGML_CANN_CALL_ACLNN_OP rt_exec_fails ''Add'' id w_init))) = 1 \<and>
   failure_of (GGML_CANN_CALL_ACLNN_OP rt_query_fails ''Add'' id w_init) =
     Some (AclError ''aclnnAddGetWorkspaceSize'' 1) \<and>
   failure_of (GGML_CANN_CALL_UNARY_OP ''Add'' id rt_query_fails t_dst w_init) =
     Some (AclError ''aclnnAddGetWorkspaceSize'' 1) \<and>
   failure_of (ggml_cann_binary_op (binary_proc ''Add'' (+)) rt_query_fails sum23 w_init) =
     Some (AclError ''aclnnAddGetWorkspaceSize'' 1) \<and>
   queries (events_of w_init (GGML_CANN_CALL_ACLNN_OP rt_query_fails ''Add'' id w_init)) =
     [''Add''] \<and>
   launches (events_of w_init (GGML_CANN_CALL_ACLNN_OP rt_query_fails ''Add'' id w_init)) = []"
proof -
  have 0: "src t_dst = t_src # []" by (simp add: t_dst_def)
  have 1: "src sum23 = a23 # b21 # []" by (simp add: sum23_def)
  have 2: "bcast_compatible a23 b21" by (simp add: bcast_compatible_def a23_def b21_def)
  show ?thesis
    using status_failure_fatal [where ctx = rt_exec_fails and OP = "''Add''" and kern = id
        and w = w_init and node = t_dst and s = t_src and others = "[]"
        and dst = sum23 and ?src0.0 = a23 and ?src1.0 = b21 and rest = "[]"
        and g = id and w' = w_init and f = "(+)"]
      status_failure_fatal [where ctx = rt_query_fails and OP = "''Add''" and kern = id
        and w = w_init and node = t_dst and s = t_src and others = "[]"
        and dst = sum23 and ?src0.0 = a23 and ?src1.0 = b21 and rest = "[]"
        and g = id and w' = w_init and f = "(+)"]
      0 1 2
    by (simp add: rt_exec_fails_def rt_query_fails_def rt_ok_def ACL_SUCCESS_def)
qed

section \<open>Properties of the elementwise kernels and of broadcast views\<close>

lemma indices_iff: "idx \<in> set (indices ns) \<longleftrightarrow> list_all2 (<) idx ns"
proof (induction ns arbitrary: idx)
  case Nil
  then show ?case by simp
next
  case (Cons n ns)
  show ?case by (cases idx) (auto simp add: Cons.IH image_iff)
qed

lemma write_all_other: "p \<notin> a ` set xs \<Longrightarrow> write_all a v xs m p = m p"
  by (induction xs arbitrary: m) auto

lemma write_all_read:
  "distinct (map a xs) \<Longrightarrow> x \<in> set xs \<Longrightarrow> write_all a v xs m (a x) = v x"
proof (induction xs arbitrary: m)
  case Nil
  then show ?case by simp
next
  case (Cons y ys)
  show ?case
  proof (cases "x = y")
    case True
    with Cons.prems show ?thesis by (simp add: write_all_other)
  next
    case False
    with Cons show ?thesis by simp
  qed
qed

lemma write_all_cong:
  assumes "\<forall>i\<in>set xs. v i = v' i" and "p \<in> a ` set xs \<or> m p = m' p"
  shows "write_all a v xs m p = write_all a v' xs m' p"
  using assms
proof (induction xs arbitrary: m m')
  case Nil
  then show ?case by simp
next
  case (Cons y ys)
  have d: "p \<in> a ` set ys \<or> (m(a y := v y)) p = (m'(a y := v' y)) p"
    using Cons.prems by auto
  have r: "\<forall>i\<in>set ys. v i = v' i" using Cons.prems by simp
  have "write_all a v ys (m(a y := v y)) p = write_all a v' ys (m'(a y := v' y)) p"
    by (rule Cons.IH [of "m(a y := v y)" "m'(a y := v' y)", OF r d])
  then show ?case by simp
qed

lemma expand_nth:
  assumes "length ms = length ns" "length ss = length ns" "i < length ns"
  shows "expand_dims ns ms ! i = (if ns ! i = 1 \<and> ms ! i \<noteq> ns ! i then ms ! i else ns ! i) \<and>
         expand_strides ns ss ms ! i = (if ns ! i = 1 \<and> ms ! i \<noteq> ns ! i then 0 else ss ! i)"
  using assms
proof (induction ns ss ms arbitrary: i rule: expand_strides.induct)
  case (1 n ns s ss m ms)
  then show ?case by (cases i) auto
qed simp_all

lemma expand_dot:
  assumes "length ms = length ns" "length ss = length ns"
    and "list_all2 (<) idx (expand_dims ns ms)"
  shows "dot idx (expand_strides ns ss ms) = dot (bcast_index idx ns) ss"
  using assms
proof (induction ns ss ms arbitrary: idx rule: expand_strides.induct)
  case (1 n ns s ss m ms)
  then obtain i idx' where idx: "idx = i # idx'" by (cases idx) auto
  with 1 show ?case by (auto simp add: idx split: if_splits)
qed simp_all

lemma plain_dot:
  assumes "list_all2 (<) idx ns"
  shows "dot (bcast_index idx ns) ss = dot idx ss"
  using assms
proof (induction arbitrary: ss rule: list_all2_induct)
  case Nil
  then show ?case by simp
next
  case (Cons i idx n ns)
  then show ?case by (cases ss) simp_all
qed

lemma expand_dims_commute:
  assumes "length ms = length ns"
    and "\<forall>i<length ns. ns ! i \<noteq> ms ! i \<longrightarrow> ns ! i = 1 \<or> ms ! i = 1"
  shows "expand_dims ms ns = expand_dims ns ms"
  using assms
proof (induction ns ms rule: expand_dims.induct)
  case (1 n ns m ms)
  from 1(3) have hd: "n \<noteq> m \<longrightarrow> n = 1 \<or> m = 1" by (auto dest: spec [of _ 0])
  from 1(3) have tl: "\<forall>i<length ns. ns ! i \<noteq> ms ! i \<longrightarrow> ns ! i = 1 \<or> ms ! i = 1"
    by (auto dest: spec [of _ "Suc i" for i])
  with 1 have "expand_dims ms ns = expand_dims ns ms" by simp
  with hd show ?case by auto
qed simp_all

lemma compatible_no_mismatch:
  assumes "length ms = length ns"
    and "\<forall>i<length ns. ns ! i \<noteq> ms ! i \<longrightarrow> ns ! i = 1 \<or> ms ! i = 1"
  shows "bcast_mismatch k ns ms = None"
  using assms
proof (induction k ns ms rule: bcast_mismatch.induct)
  case (1 k n ns m ms)
  from 1(3) have hd: "n \<noteq> m \<longrightarrow> n = 1 \<or> m = 1" by (auto dest: spec [of _ 0])
  from 1(3) have tl: "\<forall>i<length ns. ns ! i \<noteq> ms ! i \<longrightarrow> ns ! i = 1 \<or> ms ! i = 1"
    by (auto dest: spec [of _ "Suc i" for i])
  with 1 hd show ?case by auto
qed simp_all

text \<open>The address a resolved view reads at an index of the broadcast shape.\<close>

lemma resolved_addr:
  assumes "length (ne other) = length (ne t)" and "length (nb t) = length (ne t)"
    and "list_all2 (<) idx (expand_dims (ne t) (ne other))"
  shows "elem_addr (resolved_view t other) idx = elem_addr (acl_view t) (bcast_index idx (ne t))"
proof (cases "ne t = ne other")
  case True
  have same: "expand_dims ns ns = ns" for ns :: "nat list"
    by (induction ns) simp_all
  from True assms(3) have "list_all2 (<) idx (ne t)" by (simp add: same)
  then show ?thesis using True by (simp add: resolved_view_def elem_addr_def plain_dot)
next
  case False
  have "length (acl_strides (acl_view t)) = length (ne t)"
    using assms(2) by (simp add: acl_view_def)
  from expand_dot [OF assms(1) this assms(3)] False show ?thesis
    by (simp add: resolved_view_def bcast_view_def elem_addr_def acl_view_def)
qed

text \<open>
  Claim C1. Let the two sources have, in every dimension, equal extents or one extent
  equal to 1, and let the destination have the broadcast shape and a view that addresses
  each element once. Then the resolver succeeds, and in every dimension where the extents
  differ the handle of the operand with extent 1 has stride 0 and the other operand's
  extent. When the device calls succeed, the binary dispatch of an elementwise operator
  \<open>f\<close> leaves at every index of the destination the value of \<open>f\<close> on the two
  sources read at that index, each coordinate taken modulo the source's own extent. The
  2 x 3 plus 2 x 1 example of the claim is the witness.
\<close>

theorem broadcast_binary_op:
  assumes srcs: "src dst = src0 # src1 # rest"
    and bc: "list_all2 (\<lambda>n m. n = m \<or> n = 1 \<or> m = 1) (ne src0) (ne src1)"
    and rank0: "length (nb src0) = length (ne src0)"
    and rank1: "length (nb src1) = length (ne src1)"
    and shape: "ne dst = expand_dims (ne src0) (ne src1)"
    and valid: "distinct (map (elem_addr (acl_view dst)) (indices (ne dst)))"
    and ok: "ws_status ctx OP = ACL_SUCCESS" "exec_status ctx OP = ACL_SUCCESS"
            "\<forall>h. destroy_status ctx h = ACL_SUCCESS"
  shows "(\<exists>h0 h1 hd w1. bcast_shape src0 src1 dst w = Done (h0, h1, hd) w1 \<and>
            (\<forall>i<length (ne src0). ne src0 ! i \<noteq> ne src1 ! i \<longrightarrow>
               (ne src0 ! i = 1 \<longrightarrow>
                  acl_strides h0 ! i = 0 \<and> acl_dims h0 ! i = ne src1 ! i) \<and>
               (ne src1 ! i = 1 \<longrightarrow>
                  acl_strides h1 ! i = 0 \<and> acl_dims h1 ! i = ne src0 ! i))) \<and>
         (\<exists>w'. ggml_cann_binary_op (binary_proc OP f) ctx dst w = Done () w' \<and>
            (\<forall>idx\<in>set (indices (ne dst)).
               mem w' (elem_addr (acl_view dst) idx) =
                 f (mem w (elem_addr (acl_view src0) (bcast_index idx (ne src0))))
                   (mem w (elem_addr (acl_view src1) (bcast_index idx (ne src1))))))"
proof -
  have rank: "length (ne src1) = length (ne src0)"
    using bc by (simp add: list_all2_lengthD)
  have one: "\<forall>i<length (ne src0).
                ne src0 ! i \<noteq> ne src1 ! i \<longrightarrow> ne src0 ! i = 1 \<or> ne src1 ! i = 1"
    using bc by (auto simp add: list_all2_conv_all_nth)
  have compat: "bcast_compatible src0 src1"
    using compatible_no_mismatch [OF rank one] by (simp add: bcast_compatible_def)
  have strides:
    "(ne src0 ! i = 1 \<longrightarrow>
        acl_strides (resolved_view src0 src1) ! i = 0 \<and>
        acl_dims (resolved_view src0 src1) ! i = ne src1 ! i) \<and>
     (ne src1 ! i = 1 \<longrightarrow>
        acl_strides (resolved_view src1 src0) ! i = 0 \<and>
        acl_dims (resolved_view src1 src0) ! i = ne src0 ! i)"
    if i: "i < length (ne src0)" and diff: "ne src0 ! i \<noteq> ne src1 ! i" for i
  proof -
    from diff have neq: "ne src0 \<noteq> ne src1" "ne src1 \<noteq> ne src0" by auto
    have l0: "length (acl_strides (acl_view src0)) = length (ne src0)"
      using rank0 by (simp add: acl_view_def)
    have l1: "length (acl_strides (acl_view src1)) = length (ne src1)"
      using rank1 by (simp add: acl_view_def)
    have i1: "i < length (ne src1)" using i rank by simp
    from expand_nth [OF rank l0 i] expand_nth [OF rank [symmetric] l1 i1] neq diff
    show ?thesis by (auto simp add: resolved_view_def bcast_view_def)
  qed
  then have resolver: "\<exists>h0 h1 hd w1. bcast_shape src0 src1 dst w = Done (h0, h1, hd) w1 \<and>
            (\<forall>i<length (ne src0). ne src0 ! i \<noteq> ne src1 ! i \<longrightarrow>
               (ne src0 ! i = 1 \<longrightarrow>
                  acl_strides h0 ! i = 0 \<and> acl_dims h0 ! i = ne src1 ! i) \<and>
               (ne src1 ! i = 1 \<longrightarrow>
                  acl_strides h1 ! i = 0 \<and> acl_dims h1 ! i = ne src0 ! i))"
    using compat by (simp add: bcast_shape_cases)
  let ?h0 = "resolved_view src0 src1" and ?h1 = "resolved_view src1 src0"
  let ?w3 = "w\<lparr>trace := trace w @
                [CreateTensor ?h0, CreateTensor ?h1, CreateTensor (acl_view dst)]\<rparr>"
  let ?call = "GGML_CANN_CALL_ACLNN_OP ctx OP (ew_binary f ?h0 ?h1 (acl_view dst)) ?w3"
  obtain v where v: "?call = Done () v"
    using call_done [OF ok(1,2)] by blast
  have run: "ggml_cann_binary_op (binary_proc OP f) ctx dst w =
          Done () (v\<lparr>trace := trace v @
             [DestroyTensor ?h0, DestroyTensor ?h1, DestroyTensor (acl_view dst)]\<rparr>)"
    unfolding binary_op_cases [OF srcs compat] binary_proc_def v
    using ok(3) by simp
  have "mem (world_of ?call) = ew_binary f ?h0 ?h1 (acl_view dst) (mem w)"
    using ok by (simp add: call_mem)
  then have m: "mem v = ew_binary f ?h0 ?h1 (acl_view dst) (mem w)"
    by (simp add: v world_of_def)
  have val: "ew_binary f ?h0 ?h1 (acl_view dst) (mem w) (elem_addr (acl_view dst) idx) =
                 f (mem w (elem_addr (acl_view src0) (bcast_index idx (ne src0))))
                   (mem w (elem_addr (acl_view src1) (bcast_index idx (ne src1))))"
    if idx: "idx \<in> set (indices (ne dst))" for idx
  proof -
    have dims: "acl_dims (acl_view dst) = ne dst" by (simp add: acl_view_def)
    from idx have r0: "list_all2 (<) idx (expand_dims (ne src0) (ne src1))"
      by (simp add: indices_iff shape)
    then have r1: "list_all2 (<) idx (expand_dims (ne src1) (ne src0))"
      using expand_dims_commute [OF rank one] by simp
    have a0: "elem_addr ?h0 idx = elem_addr (acl_view src0) (bcast_index idx (ne src0))"
      by (rule resolved_addr [OF rank rank0 r0])
    have a1: "elem_addr ?h1 idx = elem_addr (acl_view src1) (bcast_index idx (ne src1))"
      by (rule resolved_addr [OF rank [symmetric] rank1 r1])
    show ?thesis
      unfolding ew_binary_def dims
      using write_all_read [OF valid idx] by (simp add: a0 a1)
  qed
  have "\<exists>w'. ggml_cann_binary_op (binary_proc OP f) ctx dst w = Done () w' \<and>
            (\<forall>idx\<in>set (indices (ne dst)).
               mem w' (elem_addr (acl_view dst) idx) =
                 f (mem w (elem_addr (acl_view src0) (bcast_index idx (ne src0))))
                   (mem w (elem_addr (acl_view src1) (bcast_index idx (ne src1)))))"
    unfolding run using m val by simp
  with resolver show ?thesis by (rule conjI)
qed

theorem broadcast_binary_op_witness:
  "src sum23 = a23 # b21 # [] \<and>
   list_all2 (\<lambda>n m. n = m \<or> n = 1 \<or> m = 1) (ne a23) (ne b21) \<and>
   ne sum23 = expand_dims (ne a23) (ne b21) \<and>
   distinct (map (elem_addr (acl_view sum23)) (indices (ne sum23))) \<and>
   read_tensor (mem w_ex) a23 = [1, 2, 3, 4, 5, 6] \<and>
   read_tensor (mem w_ex) b21 = [10, 20] \<and>
   acl_dims (bcast_view b21 a23) = [3, 2, 1, 1] \<and>
   acl_strides (bcast_view b21 a23) = [0, 1, 2, 2] \<and>
   failure_of (ggml_cann_binary_op (binary_proc ''Add'' (+)) rt_ok sum23 w_ex) = None \<and>
   read_tensor (mem (world_of (ggml_cann_binary_op (binary_proc ''Add'' (+)) rt_ok sum23 w_ex)))
     sum23 = [11, 12, 13, 24, 25, 26]"
proof -
  have 1: "src sum23 = a23 # b21 # []" by (simp add: sum23_def)
  have 2: "list_all2 (\<lambda>n m. n = m \<or> n = 1 \<or> m = 1) (ne a23) (ne b21)"
    by (simp add: a23_def b21_def)
  have 3: "length (nb a23) = length (ne a23)" "length (nb b21) = length (ne b21)"
    by (simp_all add: a23_def b21_def)
  have 4: "ne sum23 = expand_dims (ne a23) (ne b21)" by (simp add: sum23_def a23_def b21_def)
  have 5: "distinct (map (elem_addr (acl_view sum23)) (indices (ne sum23)))"
    by code_simp
  have 6: "ws_status rt_ok ''Add'' = ACL_SUCCESS" "exec_status rt_ok ''Add'' = ACL_SUCCESS"
    "\<forall>h. destroy_status rt_ok h = ACL_SUCCESS"
    by (simp_all add: rt_ok_def ACL_SUCCESS_def)
  from broadcast_binary_op [where f = "(+)" and w = w_ex, OF 1 2 3 4 5 6]
  obtain w' where w': "ggml_cann_binary_op (binary_proc ''Add'' (+)) rt_ok sum23 w_ex = Done () w'"
    and vals: "\<forall>idx\<in>set (indices (ne sum23)).
               mem w' (elem_addr (acl_view sum23) idx) =
                 mem w_ex (elem_addr (acl_view a23) (bcast_index idx (ne a23))) +
                 mem w_ex (elem_addr (acl_view b21) (bcast_index idx (ne b21)))"
    by blast
  have "read_tensor (mem w') sum23 =
          map (\<lambda>idx. mem w_ex (elem_addr (acl_view a23) (bcast_index idx (ne a23))) +
                      mem w_ex (elem_addr (acl_view b21) (bcast_index idx (ne b21))))
              (indices (ne sum23))"
    unfolding read_tensor_def using vals by (intro map_cong refl) blast
  also have "\<dots> = [11, 12, 13, 24, 25, 26]"
    by code_simp
  finally have out: "read_tensor (mem w') sum23 = [11, 12, 13, 24, 25, 26]" .
  have ins: "read_tensor (mem w_ex) a23 = [1, 2, 3, 4, 5, 6]"
    "read_tensor (mem w_ex) b21 = [10, 20]"
    by code_simp+
  have views: "acl_dims (bcast_view b21 a23) = [3, 2, 1, 1]"
    "acl_strides (bcast_view b21 a23) = [0, 1, 2, 2]"
    by (simp_all add: bcast_view_def acl_view_def a23_def b21_def)
  show ?thesis
    using 1 2 4 5 ins views out by (simp add: w' world_of_def failure_of_def)
qed

text \<open>A successful unary dispatch leaves in memory what its kernel computes.\<close>

lemma unary_run:
  assumes srcs: "src dst = s # rest"
    and ok: "ws_status ctx OP = ACL_SUCCESS" "exec_status ctx OP = ACL_SUCCESS"
            "\<forall>h. destroy_status ctx h = ACL_SUCCESS"
  shows "\<exists>w'. GGML_CANN_CALL_UNARY_OP OP g ctx dst w = Done () w' \<and>
           mem w' = ew_unary g (acl_view s) (acl_view dst) (mem w)"
proof -
  let ?w2 = "w\<lparr>trace := trace w @ [CreateTensor (acl_view s), CreateTensor (acl_view dst)]\<rparr>"
  let ?call = "GGML_CANN_CALL_ACLNN_OP ctx OP (ew_unary g (acl_view s) (acl_view dst)) ?w2"
  obtain v where v: "?call = Done () v"
    using call_done [OF ok(1,2)] by blast
  have "mem (world_of ?call) = ew_unary g (acl_view s) (acl_view dst) (mem w)"
    using ok by (simp add: call_mem)
  then have m: "mem v = ew_unary g (acl_view s) (acl_view dst) (mem w)"
    by (simp add: v world_of_def)
  have "GGML_CANN_CALL_UNARY_OP OP g ctx dst w =
          Done () (v\<lparr>trace := trace v @
             [DestroyTensor (acl_view s), DestroyTensor (acl_view dst)]\<rparr>)"
    unfolding GGML_CANN_CALL_UNARY_OP_def unary_op_cases [OF srcs] unary_lambda_def v
    using ok(3) by simp
  with m show ?thesis by simp
qed

text \<open>
  Claim C7. When the device calls succeed and the destination view addresses each element
  once, the clamp entry point leaves at every index of the destination the value
  \<open>max (min x max_value) min_value\<close> of the source element \<open>x\<close> at that index, where
  \<open>min_value\<close> is the first and \<open>max_value\<close> the second entry of the destination
  node's parameter block. The witness clamps -1, 0.5, 2 to the range from 0 to 1, and
  to the range from 1/4 to 3/2.
\<close>

theorem clamp_elementwise:
  assumes srcs: "src dst = s # rest"
    and params: "2 \<le> length (op_params dst)"
    and valid: "distinct (map (elem_addr (acl_view dst)) (indices (ne dst)))"
    and ok: "ws_status ctx ''Clamp'' = ACL_SUCCESS" "exec_status ctx ''Clamp'' = ACL_SUCCESS"
            "\<forall>h. destroy_status ctx h = ACL_SUCCESS"
  shows "\<exists>w'. ggml_cann_clamp ctx dst w = Done () w' \<and>
           (\<forall>idx\<in>set (indices (ne dst)).
              mem w' (elem_addr (acl_view dst) idx) =
                max (min (mem w (elem_addr (acl_view s) idx)) (op_params dst ! 1))
                    (op_params dst ! 0))"
proof -
  let ?g = "\<lambda>x. max (min x (op_params dst ! 1)) (op_params dst ! 0)"
  have p: "op_param dst 0 = op_params dst ! 0" "op_param dst 1 = op_params dst ! 1"
    using params by (auto simp add: op_param_def)
  from unary_run [OF srcs ok, of ?g w] obtain w' where
    w': "GGML_CANN_CALL_UNARY_OP ''Clamp'' ?g ctx dst w = Done () w'"
    and m: "mem w' = ew_unary ?g (acl_view s) (acl_view dst) (mem w)"
    by blast
  have dims: "acl_dims (acl_view dst) = ne dst" by (simp add: acl_view_def)
  have "mem w' (elem_addr (acl_view dst) idx) = ?g (mem w (elem_addr (acl_view s) idx))"
    if "idx \<in> set (indices (ne dst))" for idx
    unfolding m ew_unary_def dims using write_all_read [OF valid that] by simp
  moreover have "ggml_cann_clamp ctx dst w = GGML_CANN_CALL_UNARY_OP ''Clamp'' ?g ctx dst w"
    by (simp only: ggml_cann_clamp_def Let_def p)
  ultimately show ?thesis using w' by auto
qed

theorem clamp_elementwise_witness:
  "src t_dst = t_src # [] \<and> op_params t_dst = [0, 1] \<and>
   src t_clamp = t_src # [] \<and> op_params t_clamp = [1 / 4, 3 / 2] \<and>
   distinct (map (elem_addr (acl_view t_dst)) (indices (ne t_dst))) \<and>
   distinct (map (elem_addr (acl_view t_clamp)) (indices (ne t_clamp))) \<and>
   read_tensor (mem w_ex) t_src = [- 1, 1 / 2, 2] \<and>
   failure_of (ggml_cann_clamp rt_ok t_dst w_ex) = None \<and>
   read_tensor (mem (world_of (ggml_cann_clamp rt_ok t_dst w_ex))) t_dst = [0, 1 / 2, 1] \<and>
   failure_of (ggml_cann_clamp rt_ok t_clamp w_ex) = None \<and>
   read_tensor (mem (world_of (ggml_cann_clamp rt_ok t_clamp w_ex))) t_clamp =
     [1 / 4, 1 / 2, 3 / 2]"
proof -
  have 1: "src t_dst = t_src # []" "src t_clamp = t_src # []"
    by (simp_all add: t_dst_def t_clamp_def)
  have q: "op_params t_dst = [0, 1]" "op_params t_clamp = [1 / 4, 3 / 2]"
    by (simp_all add: t_dst_def t_clamp_def)
  have l: "2 \<le> length (op_params t_dst)" "2 \<le> length (op_params t_clamp)"
    by (simp_all add: q)
  have d1: "distinct (map (elem_addr (acl_view t_dst)) (indices (ne t_dst)))"
    by code_simp
  have d2: "distinct (map (elem_addr (acl_view t_clamp)) (indices (ne t_clamp)))"
    by code_simp
  have 3: "ws_status rt_ok ''Clamp'' = ACL_SUCCESS" "exec_status rt_ok ''Clamp'' = ACL_SUCCESS"
    "\<forall>h. destroy_status rt_ok h = ACL_SUCCESS"
    by (simp_all add: rt_ok_def ACL_SUCCESS_def)
  from clamp_elementwise [OF 1(1) l(1) d1 3, of w_ex]
  obtain w' where w': "ggml_cann_clamp rt_ok t_dst w_ex = Done () w'"
    and vals: "\<forall>idx\<in>set (indices (ne t_dst)).
              mem w' (elem_addr (acl_view t_dst) idx) =
                max (min (mem w_ex (elem_addr (acl_view t_src) idx)) 1) 0"
    unfolding q by auto
  from clamp_elementwise [OF 1(2) l(2) d2 3, of w_ex]
  obtain w'' where w'': "ggml_cann_clamp rt_ok t_clamp w_ex = Done () w''"
    and vals': "\<forall>idx\<in>set (indices (ne t_clamp)).
              mem w'' (elem_addr (acl_view t_clamp) idx) =
                max (min (mem w_ex (elem_addr (acl_view t_src) idx)) (3 / 2)) (1 / 4)"
    unfolding q by auto
  have "read_tensor (mem w') t_dst =
          map (\<lambda>idx. max (min (mem w_ex (elem_addr (acl_view t_src) idx)) 1) 0)
              (indices (ne t_dst))"
    unfolding read_tensor_def using vals by (intro map_cong refl) blast
  also have "\<dots> = [0, 1 / 2, 1]"
    by code_simp
  finally have out: "read_tensor (mem w') t_dst = [0, 1 / 2, 1]" .
  have "read_tensor (mem w'') t_clamp =
          map (\<lambda>idx. max (min (mem w_ex (elem_addr (acl_view t_src) idx)) (3 / 2)) (1 / 4))
              (indices (ne t_clamp))"
    unfolding read_tensor_def using vals' by (intro map_cong refl) blast
  also have "\<dots> = [1 / 4, 1 / 2, 3 / 2]"
    by code_simp
  finally have out': "read_tensor (mem w'') t_clamp = [1 / 4, 1 / 2, 3 / 2]" .
  have ins: "read_tensor (mem w_ex) t_src = [- 1, 1 / 2, 2]"
    by code_simp
  show ?thesis
    using 1 q d1 d2 ins out out' by (simp add: w' w'' world_of_def failure_of_def)
qed

text \<open>
  Claim C8, as stated, fails on an in-place node, whose destination is its source's
  storage: negating -1, 0.5, 2 in place gives 1, -0.5, -2 at the first invocation and
  -1, 0.5, 2 at the second, on the same descriptors.
\<close>

theorem unary_twice_in_place_counterexample:
  "src t_inplace = t_src # [] \<and> data t_inplace = data t_src \<and>
   failure_of (GGML_CANN_CALL_UNARY_OP ''Neg'' uminus rt_ok t_inplace w_ex) = None \<and>
   read_tensor (mem (world_of (GGML_CANN_CALL_UNARY_OP ''Neg'' uminus rt_ok t_inplace w_ex)))
     t_inplace = [1, - (1 / 2), - 2] \<and>
   failure_of (GGML_CANN_CALL_UNARY_OP ''Neg'' uminus rt_ok t_inplace
      (world_of (GGML_CANN_CALL_UNARY_OP ''Neg'' uminus rt_ok t_inplace w_ex))) = None \<and>
   read_tensor (mem (world_of (GGML_CANN_CALL_UNARY_OP ''Neg'' uminus rt_ok t_inplace
      (world_of (GGML_CANN_CALL_UNARY_OP ''Neg'' uminus rt_ok t_inplace w_ex)))))
     t_inplace = [- 1, 1 / 2, 2]"
proof -
  have 1: "src t_inplace = t_src # []" by (simp add: t_inplace_def)
  have 2: "ws_status rt_ok ''Neg'' = ACL_SUCCESS" "exec_status rt_ok ''Neg'' = ACL_SUCCESS"
    "\<forall>h. destroy_status rt_ok h = ACL_SUCCESS"
    by (simp_all add: rt_ok_def ACL_SUCCESS_def)
  from unary_run [OF 1 2, of uminus w_ex] obtain v1 where
    v1: "GGML_CANN_CALL_UNARY_OP ''Neg'' uminus rt_ok t_inplace w_ex = Done () v1"
    and m1: "mem v1 = ew_unary uminus (acl_view t_src) (acl_view t_inplace) (mem w_ex)"
    by blast
  from unary_run [OF 1 2, of uminus v1] obtain v2 where
    v2: "GGML_CANN_CALL_UNARY_OP ''Neg'' uminus rt_ok t_inplace v1 = Done () v2"
    and m2: "mem v2 = ew_unary uminus (acl_view t_src) (acl_view t_inplace) (mem v1)"
    by blast
  have out1: "read_tensor (mem v1) t_inplace = [1, - (1 / 2), - 2]"
    unfolding m1 by code_simp
  have out2: "read_tensor (mem v2) t_inplace = [- 1, 1 / 2, 2]"
    unfolding m2 m1 by code_simp
  have d: "data t_inplace = data t_src" by (simp add: t_inplace_def t_src_def)
  show ?thesis
    using 1 d out1 out2 by (simp add: v1 v2 world_of_def failure_of_def)
qed

text \<open>
  Claim C8, amended. Two invocations of an elementwise unary operator on the same node
  (the device calls succeeding) leave the same contents in the destination when the
  source holds the same contents at both invocations, whatever else differs between the
  two worlds; in particular two invocations in a row do so when no element of the source
  view is an element of the destination view.
\<close>

theorem unary_same_input_same_output:
  assumes srcs: "src dst = s # rest"
    and ok: "ws_status ctx OP = ACL_SUCCESS" "exec_status ctx OP = ACL_SUCCESS"
            "\<forall>h. destroy_status ctx h = ACL_SUCCESS"
  shows "((\<forall>idx\<in>set (indices (ne dst)).
             mem w2 (elem_addr (acl_view s) idx) = mem w1 (elem_addr (acl_view s) idx)) \<longrightarrow>
          (\<exists>v1 v2. GGML_CANN_CALL_UNARY_OP OP g ctx dst w1 = Done () v1 \<and>
             GGML_CANN_CALL_UNARY_OP OP g ctx dst w2 = Done () v2 \<and>
             read_tensor (mem v2) dst = read_tensor (mem v1) dst)) \<and>
         (set (map (elem_addr (acl_view s)) (indices (ne dst))) \<inter>
          set (map (elem_addr (acl_view dst)) (indices (ne dst))) = {} \<longrightarrow>
          (\<exists>v1 v2. GGML_CANN_CALL_UNARY_OP OP g ctx dst w1 = Done () v1 \<and>
             GGML_CANN_CALL_UNARY_OP OP g ctx dst v1 = Done () v2 \<and>
             read_tensor (mem v2) dst = read_tensor (mem v1) dst))"
proof -
  have dims: "acl_dims (acl_view dst) = ne dst" by (simp add: acl_view_def)
  have main: "\<exists>va vb. GGML_CANN_CALL_UNARY_OP OP g ctx dst wa = Done () va \<and>
             GGML_CANN_CALL_UNARY_OP OP g ctx dst wb = Done () vb \<and>
             read_tensor (mem vb) dst = read_tensor (mem va) dst"
    if same: "\<forall>idx\<in>set (indices (ne dst)).
             mem wb (elem_addr (acl_view s) idx) = mem wa (elem_addr (acl_view s) idx)"
    for wa wb
  proof -
    from unary_run [OF srcs ok, of g wa] obtain va where
      va: "GGML_CANN_CALL_UNARY_OP OP g ctx dst wa = Done () va"
      and ma: "mem va = ew_unary g (acl_view s) (acl_view dst) (mem wa)"
      by blast
    from unary_run [OF srcs ok, of g wb] obtain vb where
      vb: "GGML_CANN_CALL_UNARY_OP OP g ctx dst wb = Done () vb"
      and mb: "mem vb = ew_unary g (acl_view s) (acl_view dst) (mem wb)"
      by blast
    have vs: "\<forall>idx\<in>set (indices (ne dst)).
        g (mem wb (elem_addr (acl_view s) idx)) = g (mem wa (elem_addr (acl_view s) idx))"
      using same by simp
    have "mem vb (elem_addr (acl_view dst) idx) = mem va (elem_addr (acl_view dst) idx)"
      if "idx \<in> set (indices (ne dst))" for idx
      unfolding ma mb ew_unary_def dims
      by (rule write_all_cong [OF vs]) (use that in simp)
    then have "read_tensor (mem vb) dst = read_tensor (mem va) dst"
      by (simp add: read_tensor_def)
    with va vb show ?thesis by blast
  qed
  have seq: "\<exists>v1 v2. GGML_CANN_CALL_UNARY_OP OP g ctx dst w1 = Done () v1 \<and>
             GGML_CANN_CALL_UNARY_OP OP g ctx dst v1 = Done () v2 \<and>
             read_tensor (mem v2) dst = read_tensor (mem v1) dst"
    if disj: "set (map (elem_addr (acl_view s)) (indices (ne dst))) \<inter>
          set (map (elem_addr (acl_view dst)) (indices (ne dst))) = {}"
  proof -
    from unary_run [OF srcs ok, of g w1] obtain v1 where
      v1: "GGML_CANN_CALL_UNARY_OP OP g ctx dst w1 = Done () v1"
      and m1: "mem v1 = ew_unary g (acl_view s) (acl_view dst) (mem w1)"
      by blast
    have "mem v1 (elem_addr (acl_view s) idx) = mem w1 (elem_addr (acl_view s) idx)"
      if "idx \<in> set (indices (ne dst))" for idx
    proof -
      from that disj have "elem_addr (acl_view s) idx \<notin>
          elem_addr (acl_view dst) ` set (indices (ne dst))"
        by auto
      then show ?thesis
        unfolding m1 ew_unary_def dims by (rule write_all_other)
    qed
    then have "\<forall>idx\<in>set (indices (ne dst)).
             mem v1 (elem_addr (acl_view s) idx) = mem w1 (elem_addr (acl_view s) idx)"
      by blast
    from main [OF this] v1 show ?thesis by auto
  qed
  from main [of w2 w1] seq show ?thesis by blast
qed

theorem unary_same_input_same_output_witness:
  "src t_dst = t_src # [] \<and>
   set (map (elem_addr (acl_view t_src)) (indices (ne t_dst))) \<inter>
     set (map (elem_addr (acl_view t_dst)) (indices (ne t_dst))) = {} \<and>
   read_tensor (mem w_ex) t_src = [- 1, 1 / 2, 2] \<and>
   read_tensor (mem (world_of (GGML_CANN_CALL_UNARY_OP ''Relu'' (\<lambda>x. max x 0) rt_ok t_dst w_ex)))
     t_dst = [0, 1 / 2, 2] \<and>
   read_tensor (mem (world_of (GGML_CANN_CALL_UNARY_OP ''Relu'' (\<lambda>x. max x 0) rt_ok t_dst
      (world_of (GGML_CANN_CALL_UNARY_OP ''Relu'' (\<lambda>x. max x 0) rt_ok t_dst w_ex)))))
     t_dst = [0, 1 / 2, 2]"
proof -
  let ?g = "\<lambda>x::real. max x 0"
  have 1: "src t_dst = t_src # []" by (simp add: t_dst_def)
  have 2: "ws_status rt_ok ''Relu'' = ACL_SUCCESS" "exec_status rt_ok ''Relu'' = ACL_SUCCESS"
    "\<forall>h. destroy_status rt_ok h = ACL_SUCCESS"
    by (simp_all add: rt_ok_def ACL_SUCCESS_def)
  have 3: "set (map (elem_addr (acl_view t_src)) (indices (ne t_dst))) \<inter>
     set (map (elem_addr (acl_view t_dst)) (indices (ne t_dst))) = {}"
    by code_simp
  from unary_run [OF 1 2, of ?g w_ex] obtain v1 where
    v1: "GGML_CANN_CALL_UNARY_OP ''Relu'' ?g rt_ok t_dst w_ex = Done () v1"
    and m1: "mem v1 = ew_unary ?g (acl_view t_src) (acl_view t_dst) (mem w_ex)"
    by blast
  have ins: "read_tensor (mem w_ex) t_src = [- 1, 1 / 2, 2]"
    by code_simp
  have out1: "read_tensor (mem v1) t_dst = [0, 1 / 2, 2]"
    unfolding m1 by code_simp
  from unary_same_input_same_output [where g = ?g and ?w1.0 = w_ex and ?w2.0 = w_ex, OF 1 2] 3
  obtain v2 where v2: "GGML_CANN_CALL_UNARY_OP ''Relu'' ?g rt_ok t_dst v1 = Done () v2"
    and eq: "read_tensor (mem v2) t_dst = read_tensor (mem v1) t_dst"
    using v1 by auto
  show ?thesis
    using 1 3 ins out1 eq by (simp add: v1 v2 world_of_def)
qed

end
